theory Spec2Isabelle
  imports
    Complex_Main
    "HOL-Library.AList"
    "HOL-Library.Multiset"
    "HOL-Library.Product_Lexorder"
    "HOL-Library.Word"
begin

section \<open>The stream-reassembly engine of litellm: data model\<close>

text \<open>
  The development embeds \<^verbatim>\<open>litellm/litellm_core_utils/streaming_chunk_builder_utils.py\<close>:
  the class \<^verbatim>\<open>ChunkProcessor\<close> and the function \<^verbatim>\<open>concatenate_base64_list\<close>.

  The chunk, choice, delta and usage classes are declared in \<^verbatim>\<open>litellm.types\<close>, outside
  the files at hand; the records below follow section 3 of the specification and hold the
  fields the embedded methods read.

  A field that the source reads with \<^verbatim>\<open>d.get(key, default)\<close> or \<^verbatim>\<open>hasattr\<close> and then tests
  for the key itself, for null and for the value is a \<open>pyfield\<close>: \<open>Missing\<close> is the key
  (attribute) being absent, \<open>PyNone\<close> is an explicit null. A field whose absent and null
  states the source treats alike (\<^verbatim>\<open>hasattr(x, "id") and x.id\<close>) is an \<open>option\<close>, and so is
  a dictionary key over which the source iterates after \<^verbatim>\<open>get(key, [])\<close>, \<open>None\<close> being
  the absent key. Where an explicit null makes the source raise, the field is a
  \<open>pyfield\<close> and the raise is a branch of the model. Python integers are \<open>int\<close>, Python
  strings are \<open>string\<close>, the time stamp \<^verbatim>\<open>created_at\<close> (a float read only through
  comparisons) is a \<open>real\<close>.
\<close>

datatype 'a pyfield = Missing | PyNone | Present 'a

datatype py_error =
  IndexError | KeyError | TypeError | Binascii_Error | Token_Counter_Error string

text \<open>
  Python truthiness of an optional string and of an optional number. \<open>truthy_val v\<close> is
  the string a test \<^verbatim>\<open>if v:\<close> lets through: \<open>None\<close> for a null and for the empty string.
\<close>

definition truthy_val :: "string option \<Rightarrow> string option" where
  "truthy_val v = (case v of None \<Rightarrow> None | Some s \<Rightarrow> if s = [] then None else Some s)"

definition truthy_num :: "real pyfield \<Rightarrow> bool" where
  "truthy_num v = (case v of Present r \<Rightarrow> r \<noteq> 0 | _ \<Rightarrow> False)"

record function_delta =
  fn_name :: "string option"
  fn_arguments :: "string option"

record tool_call_delta =
  tc_index :: "int pyfield"
  tc_id :: "string option"
  tc_type :: "string option"
  tc_function :: "function_delta pyfield"

record thinking_block =
  tb_type :: "string option"
  tb_thinking :: "string option"
  tb_data :: "string option"
  tb_signature :: "string option"

text \<open>
  An entry of \<^verbatim>\<open>delta.tool_calls\<close> is \<open>None\<close> when it is a falsy value (a null entry),
  and an object otherwise.
\<close>

record delta =
  role :: "string option"
  content :: "string pyfield"
  reasoning_content :: "string pyfield"
  thinking_blocks :: "thinking_block list option"
  tool_calls :: "tool_call_delta option list pyfield"

definition empty_delta :: delta where
  "empty_delta = \<lparr>role = None, content = Missing, reasoning_content = Missing,
     thinking_blocks = None, tool_calls = Missing\<rparr>"

record choice =
  delta :: "delta option"
  finish_reason :: "string pyfield"

record prompt_tokens_details =
  cached_tokens :: "int option"
  web_search_requests :: "int option"

record completion_tokens_details =
  reasoning_tokens :: "int option"
  audio_tokens :: "int option"

record usage =
  prompt_tokens :: "int option"
  completion_tokens :: "int option"
  total_tokens :: "int option"
  cache_creation_input_tokens :: "int option"
  cache_read_input_tokens :: "int option"
  usage_completion_tokens_details :: "completion_tokens_details option"
  usage_prompt_tokens_details :: "prompt_tokens_details option"

text \<open>
  A chunk. \<open>is_model_response\<close> is the test
  \<^verbatim>\<open>isinstance(chunk, ModelResponse) or isinstance(chunk, ModelResponseStream)\<close> together
  with \<^verbatim>\<open>hasattr(chunk, "_hidden_params")\<close>; \<open>hidden_created_at\<close> and \<open>hidden_usage\<close> are
  the entries \<^verbatim>\<open>created_at\<close> and \<^verbatim>\<open>usage\<close> of \<^verbatim>\<open>_hidden_params\<close>; \<open>hidden_usage\<close> is \<open>None\<close>
  when the key is absent or null.
\<close>

record chunk =
  chunk_id :: "string option"
  chunk_object :: string
  created :: int
  model :: string
  system_fingerprint :: "string option"
  choices :: "choice list"
  chunk_usage :: "usage pyfield"
  is_model_response :: bool
  hidden_created_at :: "real pyfield"
  hidden_usage :: "usage option"

text \<open>\<^verbatim>\<open>choice.get("delta", {})\<close>: an absent delta reads as the empty dictionary.\<close>

definition get_delta :: "choice \<Rightarrow> delta" where
  "get_delta c = (case delta c of None \<Rightarrow> empty_delta | Some d \<Rightarrow> d)"

section \<open>The chunk orderer\<close>

text \<open>
  \<^verbatim>\<open>_sort_chunks\<close> sorts by \<^verbatim>\<open>x._hidden_params.get("created_at", float("inf"))\<close>. The default
  stands for an absent key only: a key that is present and null gives the key \<^verbatim>\<open>None\<close>.
  The sort is entered when the first chunk has a truthy hint, a float; Python then
  compares the key \<^verbatim>\<open>None\<close> of any other chunk with a float and raises \<^verbatim>\<open>TypeError\<close>.

  Without null the keys are floats. \<open>created_at_key\<close> is a pair ordered
  lexicographically: chunks without the hint carry \<open>True\<close> in the first component and so
  compare above every chunk with a hint, as \<^verbatim>\<open>float("inf")\<close> does above every finite float.
  Python's \<^verbatim>\<open>sorted\<close> is stable, and so is \<open>sort_key\<close>.
\<close>

definition created_at_key :: "chunk \<Rightarrow> bool \<times> real" where
  "created_at_key x = (case hidden_created_at x of Present t \<Rightarrow> (False, t) | _ \<Rightarrow> (True, 0))"

definition null_created_at :: "chunk \<Rightarrow> bool" where
  "null_created_at x = (hidden_created_at x = PyNone)"

definition sort_chunks :: "chunk list \<Rightarrow> py_error + chunk list" where
  "sort_chunks chunks =
     (case chunks of
        [] \<Rightarrow> Inr []
      | c # _ \<Rightarrow>
          if truthy_num (hidden_created_at c)
          then (if list_ex null_created_at chunks then Inl TypeError
                else Inr (sort_key created_at_key chunks))
          else Inr chunks)"

section \<open>The base-response builder\<close>

text \<open>
  \<^verbatim>\<open>_get_chunk_id\<close> returns the first truthy id; \<^verbatim>\<open>build_base_response\<close> reads the identity
  fields from \<^verbatim>\<open>self.first_chunk\<close>, scans the chunks for the finish reason and builds a
  \<^verbatim>\<open>ModelResponse\<close> from them. The record \<open>model_response\<close> is the object returned.

  The classes \<^verbatim>\<open>ModelResponse\<close> and \<^verbatim>\<open>Choices\<close> are outside the files at hand. Their
  constructors are modelled by what they do to the arguments of lines 88 to 108: a
  response built without \<^verbatim>\<open>stream\<close> has the object \<^verbatim>\<open>"chat.completion"\<close> whatever object is
  handed over, and a choice has the finish reason \<^verbatim>\<open>"stop"\<close> when a null is handed over and
  \<^verbatim>\<open>map_finish_reason(finish_reason)\<close> otherwise. \<^verbatim>\<open>map_finish_reason\<close> is the table of litellm
  that normalises the finish reasons of the providers; it is a parameter of the model.
  The other fields are recorded as they are handed over.
\<close>

fun get_chunk_id :: "chunk list \<Rightarrow> string" where
  "get_chunk_id [] = []"
| "get_chunk_id (c # cs) =
     (case chunk_id c of
        None \<Rightarrow> get_chunk_id cs
      | Some i \<Rightarrow> if i = [] then get_chunk_id cs else i)"

text \<open>One round of the loop of lines 80 to 85, on the running \<^verbatim>\<open>finish_reason\<close>.\<close>

definition finish_reason_step :: "string option \<Rightarrow> chunk \<Rightarrow> string option" where
  "finish_reason_step fr c =
     (case choices c of
        [] \<Rightarrow> fr
      | ch # _ \<Rightarrow>
          (case finish_reason ch of
             Missing \<Rightarrow> fr
           | PyNone \<Rightarrow> None
           | Present s \<Rightarrow> Some s))"

fun finish_reason_loop :: "string option \<Rightarrow> chunk list \<Rightarrow> string option" where
  "finish_reason_loop fr [] = fr"
| "finish_reason_loop fr (c # cs) = finish_reason_loop (finish_reason_step fr c) cs"

record model_response =
  mr_id :: string
  mr_object :: string
  mr_created :: int
  mr_model :: string
  mr_system_fingerprint :: "string option"
  mr_role :: "string option"
  mr_content :: string
  mr_finish_reason :: string

text \<open>The finish reason of a \<^verbatim>\<open>Choices\<close> object built from \<^verbatim>\<open>finish_reason\<close>.\<close>

definition choices_finish_reason :: "(string \<Rightarrow> string) \<Rightarrow> string option \<Rightarrow> string" where
  "choices_finish_reason map_finish_reason fr =
     (case fr of None \<Rightarrow> ''stop'' | Some s \<Rightarrow> map_finish_reason s)"

definition build_base_response ::
  "(string \<Rightarrow> string) \<Rightarrow> chunk \<Rightarrow> chunk list \<Rightarrow> py_error + model_response" where
  "build_base_response map_finish_reason first_chunk chunks =
     (case choices first_chunk of
        [] \<Rightarrow> Inl IndexError
      | ch # _ \<Rightarrow>
          (case delta ch of
             None \<Rightarrow> Inl KeyError
           | Some d \<Rightarrow>
               Inr \<lparr>mr_id = get_chunk_id chunks,
                    mr_object = ''chat.completion'',
                    mr_created = created first_chunk,
                    mr_model = model first_chunk,
                    mr_system_fingerprint = system_fingerprint first_chunk,
                    mr_role = role d,
                    mr_content = [],
                    mr_finish_reason =
                      choices_finish_reason map_finish_reason
                        (finish_reason_loop (Some ''stop'') chunks)\<rparr>))"

section \<open>The content merger\<close>

datatype delta_key = Content_Key | Reasoning_Content_Key

definition delta_get :: "delta \<Rightarrow> delta_key \<Rightarrow> string pyfield" where
  "delta_get d k = (case k of Content_Key \<Rightarrow> content d | Reasoning_Content_Key \<Rightarrow> reasoning_content d)"

text \<open>
  \<^verbatim>\<open>get_combined_content\<close>: the two nested loops append to \<^verbatim>\<open>content_list\<close>, which is
  joined at the end. \<^verbatim>\<open>delta.get(delta_key, "")\<close> reads an absent key as the empty string;
  a null is skipped.
\<close>

fun content_choices :: "delta_key \<Rightarrow> string list \<Rightarrow> choice list \<Rightarrow> string list" where
  "content_choices k content_list [] = content_list"
| "content_choices k content_list (ch # chs) =
     (case delta_get (get_delta ch) k of
        PyNone \<Rightarrow> content_choices k content_list chs
      | Missing \<Rightarrow> content_choices k (content_list @ [[]]) chs
      | Present s \<Rightarrow> content_choices k (content_list @ [s]) chs)"

fun content_chunks :: "delta_key \<Rightarrow> string list \<Rightarrow> chunk list \<Rightarrow> string list" where
  "content_chunks k content_list [] = content_list"
| "content_chunks k content_list (c # cs) =
     content_chunks k (content_choices k content_list (choices c)) cs"

definition get_combined_content :: "chunk list \<Rightarrow> delta_key \<Rightarrow> string" where
  "get_combined_content chunks k = concat (content_chunks k [] chunks)"

definition get_combined_reasoning_content :: "chunk list \<Rightarrow> string" where
  "get_combined_reasoning_content chunks = get_combined_content chunks Reasoning_Content_Key"

section \<open>The thinking-block merger\<close>

text \<open>
  \<^verbatim>\<open>get_combined_thinking_content\<close> keeps four local variables over its three nested
  loops; \<open>thinking_state\<close> is their tuple. The variable \<^verbatim>\<open>type\<close> takes the two values of
  \<open>thinking_type\<close>.
\<close>

datatype thinking_type = Thinking | Redacted_Thinking

record thinking_state =
  combined_thinking_text :: "string option"
  ts_data :: "string option"
  ts_signature :: "string option"
  ts_type :: thinking_type

definition thinking_init :: thinking_state where
  "thinking_init = \<lparr>combined_thinking_text = None, ts_data = None, ts_signature = None,
     ts_type = Thinking\<rparr>"

text \<open>The body of the innermost loop (lines 250 to 262), for one entry of \<^verbatim>\<open>thinking_blocks\<close>.\<close>

definition thinking_block_step :: "thinking_state \<Rightarrow> thinking_block \<Rightarrow> thinking_state" where
  "thinking_block_step st b =
     (if tb_type b = Some ''redacted_thinking''
      then st\<lparr>ts_type := Redacted_Thinking, ts_data := tb_data b\<rparr>
      else
        st\<lparr>ts_type := Thinking,
           combined_thinking_text :=
             (case truthy_val (tb_thinking b) of
                None \<Rightarrow> combined_thinking_text st
              | Some thinking_text \<Rightarrow>
                  Some ((case combined_thinking_text st of None \<Rightarrow> [] | Some t \<Rightarrow> t)
                        @ thinking_text)),
           ts_signature := tb_signature b\<rparr>)"

fun thinking_blocks_loop :: "thinking_state \<Rightarrow> thinking_block list \<Rightarrow> thinking_state" where
  "thinking_blocks_loop st [] = st"
| "thinking_blocks_loop st (b # bs) = thinking_blocks_loop (thinking_block_step st b) bs"

text \<open>
  \<^verbatim>\<open>if thinking and isinstance(thinking, list)\<close>: an absent key, a null and the empty list
  all leave the state as it is.
\<close>

fun thinking_choices :: "thinking_state \<Rightarrow> choice list \<Rightarrow> thinking_state" where
  "thinking_choices st [] = st"
| "thinking_choices st (ch # chs) =
     (case thinking_blocks (get_delta ch) of
        None \<Rightarrow> thinking_choices st chs
      | Some bs \<Rightarrow> thinking_choices (thinking_blocks_loop st bs) chs)"

fun thinking_chunks :: "thinking_state \<Rightarrow> chunk list \<Rightarrow> thinking_state" where
  "thinking_chunks st [] = st"
| "thinking_chunks st (c # cs) = thinking_chunks (thinking_choices st (choices c)) cs"

datatype thinking_result =
  Thinking_Block string string
| Redacted_Thinking_Block string

text \<open>The tail of the method (lines 264 to 282); \<open>None\<close> is the returned \<^verbatim>\<open>None\<close>.\<close>

definition thinking_emit :: "thinking_state \<Rightarrow> thinking_result list option" where
  "thinking_emit st =
     (case (truthy_val (combined_thinking_text st), ts_type st, truthy_val (ts_signature st)) of
        (Some t, Thinking, Some sg) \<Rightarrow> Some [Thinking_Block t sg]
      | _ \<Rightarrow>
          (case (truthy_val (ts_data st), ts_type st) of
             (Some d, Redacted_Thinking) \<Rightarrow> Some [Redacted_Thinking_Block d]
           | _ \<Rightarrow> None))"

definition get_combined_thinking_content :: "chunk list \<Rightarrow> thinking_result list option" where
  "get_combined_thinking_content chunks = thinking_emit (thinking_chunks thinking_init chunks)"

section \<open>The tool-call merger\<close>

text \<open>
  \<^verbatim>\<open>tool_call_map\<close> is a Python dictionary from the tool-call index to an accumulator. It
  is an association list in insertion order: \<open>map_of\<close> looks a key up and \<open>AList.update\<close>
  overwrites a key in place or appends a new one, as assignment to a dictionary does.
\<close>

record tool_call_data =
  data_id :: "string option"
  data_name :: "string option"
  data_type :: "string option"
  data_arguments :: "string list"

text \<open>A key of the dictionary is an index or, for an entry whose index is null, \<^verbatim>\<open>None\<close>.\<close>

type_synonym tool_call_map = "(int option \<times> tool_call_data) list"

definition new_tool_call_data :: tool_call_data where
  "new_tool_call_data = \<lparr>data_id = None, data_name = None, data_type = None, data_arguments = []\<rparr>"

text \<open>
  \<^verbatim>\<open>getattr(tool_call, "index", 0)\<close>: the default stands for an absent attribute only; an
  index that is present and null is returned as it is.
\<close>

definition get_index :: "tool_call_delta \<Rightarrow> int option" where
  "get_index tc = (case tc_index tc of Missing \<Rightarrow> Some 0 | PyNone \<Rightarrow> None | Present i \<Rightarrow> Some i)"

text \<open>
  The guard of line 130: the entry is skipped when it is falsy or has no attribute
  \<^verbatim>\<open>function\<close>.
\<close>

definition skipped :: "tool_call_delta option \<Rightarrow> bool" where
  "skipped e = (case e of None \<Rightarrow> True | Some tc \<Rightarrow> tc_function tc = Missing)"

text \<open>Lines 142 to 158: what one entry writes into the accumulator of its index.\<close>

definition update_data :: "tool_call_delta \<Rightarrow> tool_call_data \<Rightarrow> tool_call_data" where
  "update_data tc d =
     (let d1 = (case truthy_val (tc_id tc) of None \<Rightarrow> d | Some i \<Rightarrow> d\<lparr>data_id := Some i\<rparr>);
          d2 = (case truthy_val (tc_type tc) of None \<Rightarrow> d1 | Some t \<Rightarrow> d1\<lparr>data_type := Some t\<rparr>)
      in case tc_function tc of
           Present f \<Rightarrow>
             (let d3 = (case truthy_val (fn_name f) of
                          None \<Rightarrow> d2 | Some n \<Rightarrow> d2\<lparr>data_name := Some n\<rparr>)
              in case truthy_val (fn_arguments f) of
                   None \<Rightarrow> d3
                 | Some a \<Rightarrow> d3\<lparr>data_arguments := data_arguments d3 @ [a]\<rparr>)
         | _ \<Rightarrow> d2)"

text \<open>The body of the loop over \<^verbatim>\<open>tool_calls\<close> (lines 130 to 158).\<close>

definition tool_call_step :: "tool_call_map \<Rightarrow> tool_call_delta option \<Rightarrow> tool_call_map" where
  "tool_call_step m e =
     (case e of
        None \<Rightarrow> m
      | Some tc \<Rightarrow>
          if tc_function tc = Missing then m
          else
            (let index = get_index tc;
                 d = (case map_of m index of None \<Rightarrow> new_tool_call_data | Some d \<Rightarrow> d)
             in AList.update index (update_data tc d) m))"

fun tool_calls_loop :: "tool_call_map \<Rightarrow> tool_call_delta option list \<Rightarrow> tool_call_map" where
  "tool_calls_loop m [] = m"
| "tool_calls_loop m (e # es) = tool_calls_loop (tool_call_step m e) es"

text \<open>
  \<^verbatim>\<open>delta.get("tool_calls", [])\<close>: an absent key reads as the empty list. A key that is
  present and null is returned as it is, and the loop over it raises \<^verbatim>\<open>TypeError\<close>; this
  is the delta of a chunk that carries content only.
\<close>

definition get_tool_calls :: "delta \<Rightarrow> py_error + tool_call_delta option list" where
  "get_tool_calls d =
     (case tool_calls d of
        Missing \<Rightarrow> Inr []
      | PyNone \<Rightarrow> Inl TypeError
      | Present es \<Rightarrow> Inr es)"

fun tool_calls_choices :: "tool_call_map \<Rightarrow> choice list \<Rightarrow> py_error + tool_call_map" where
  "tool_calls_choices m [] = Inr m"
| "tool_calls_choices m (ch # chs) =
     (case get_tool_calls (get_delta ch) of
        Inl e \<Rightarrow> Inl e
      | Inr es \<Rightarrow> tool_calls_choices (tool_calls_loop m es) chs)"

fun tool_calls_chunks :: "tool_call_map \<Rightarrow> chunk list \<Rightarrow> py_error + tool_call_map" where
  "tool_calls_chunks m [] = Inr m"
| "tool_calls_chunks m (c # cs) =
     (case tool_calls_choices m (choices c) of
        Inl e \<Rightarrow> Inl e
      | Inr m' \<Rightarrow> tool_calls_chunks m' cs)"

text \<open>
  \<^verbatim>\<open>sorted(tool_call_map.keys())\<close>. Keys that are all integers are sorted ascending. The key
  \<^verbatim>\<open>None\<close> cannot be compared with another key: alone it is returned as it is, next to
  another key the comparison raises \<^verbatim>\<open>TypeError\<close>.
\<close>

definition sorted_keys :: "int option list \<Rightarrow> py_error + int option list" where
  "sorted_keys ks =
     (case those ks of
        Some indexes \<Rightarrow> Inr (map Some (sort indexes))
      | None \<Rightarrow> (case ks of [k] \<Rightarrow> Inr [k] | _ \<Rightarrow> Inl TypeError))"

text \<open>The emitted \<^verbatim>\<open>ChatCompletionMessageToolCall\<close>, with its \<^verbatim>\<open>Function\<close> inlined.\<close>

record tool_call =
  call_id :: string
  call_type :: string
  call_name :: string
  call_arguments :: string

text \<open>
  Lines 161 to 174, for one index of \<^verbatim>\<open>sorted(tool_call_map.keys())\<close>. The index is a
  key of the map, so the lookup finds it; the branch \<open>None\<close> is never taken.
\<close>

definition emit_tool_call :: "tool_call_map \<Rightarrow> int option \<Rightarrow> tool_call option" where
  "emit_tool_call m index =
     (case map_of m index of
        None \<Rightarrow> None
      | Some d \<Rightarrow>
          (case (truthy_val (data_id d), truthy_val (data_name d)) of
             (Some i, Some n) \<Rightarrow>
               Some \<lparr>call_id = i,
                     call_type = (case truthy_val (data_type d) of None \<Rightarrow> ''function'' | Some t \<Rightarrow> t),
                     call_name = n,
                     call_arguments =
                       (let combined_arguments = concat (data_arguments d)
                        in if combined_arguments = [] then ''{}'' else combined_arguments)\<rparr>
           | _ \<Rightarrow> None))"

definition get_combined_tool_content :: "chunk list \<Rightarrow> py_error + tool_call list" where
  "get_combined_tool_content tool_call_chunks =
     (case tool_calls_chunks [] tool_call_chunks of
        Inl e \<Rightarrow> Inl e
      | Inr m \<Rightarrow>
          (case sorted_keys (map fst m) of
             Inl e \<Rightarrow> Inl e
           | Inr keys \<Rightarrow> Inr (List.map_filter (emit_tool_call m) keys)))"

section \<open>The usage aggregator\<close>

text \<open>
  \<^verbatim>\<open>_usage_chunk_calculation_helper\<close> returns a dictionary of six entries;
  \<open>usage_chunk_dict\<close> is that dictionary. \<^verbatim>\<open>usage_chunk.get("prompt_tokens", 0) or 0\<close> reads
  an absent key, a null and zero as zero. The two details entries are \<open>None\<close> when the
  attribute is absent or is neither a dictionary nor an object of the details class.
\<close>

record usage_chunk_dict =
  d_prompt_tokens :: int
  d_completion_tokens :: int
  d_cache_creation_input_tokens :: "int option"
  d_cache_read_input_tokens :: "int option"
  d_completion_tokens_details :: "completion_tokens_details option"
  d_prompt_tokens_details :: "prompt_tokens_details option"

definition usage_chunk_calculation_helper :: "usage \<Rightarrow> usage_chunk_dict" where
  "usage_chunk_calculation_helper usage_chunk =
     \<lparr>d_prompt_tokens = (case prompt_tokens usage_chunk of None \<Rightarrow> 0 | Some n \<Rightarrow> n),
      d_completion_tokens = (case completion_tokens usage_chunk of None \<Rightarrow> 0 | Some n \<Rightarrow> n),
      d_cache_creation_input_tokens = cache_creation_input_tokens usage_chunk,
      d_cache_read_input_tokens = cache_read_input_tokens usage_chunk,
      d_completion_tokens_details = usage_completion_tokens_details usage_chunk,
      d_prompt_tokens_details = usage_prompt_tokens_details usage_chunk\<rparr>"

text \<open>The local variables of \<^verbatim>\<open>_calculate_usage_per_chunk\<close>, returned as \<^verbatim>\<open>UsagePerChunk\<close>.\<close>

record usage_per_chunk =
  upc_prompt_tokens :: int
  upc_completion_tokens :: int
  upc_cache_creation_input_tokens :: "int option"
  upc_cache_read_input_tokens :: "int option"
  upc_web_search_requests :: "int option"
  upc_completion_tokens_details :: "completion_tokens_details option"
  upc_prompt_tokens_details :: "prompt_tokens_details option"

definition usage_init :: usage_per_chunk where
  "usage_init =
     \<lparr>upc_prompt_tokens = 0, upc_completion_tokens = 0,
      upc_cache_creation_input_tokens = None, upc_cache_read_input_tokens = None,
      upc_web_search_requests = None, upc_completion_tokens_details = None,
      upc_prompt_tokens_details = None\<rparr>"

text \<open>
  Lines 399 to 406: the usage record of a chunk, from its \<^verbatim>\<open>usage\<close> key when the key is
  there (a null then gives no record), from the hidden parameters otherwise.
\<close>

definition get_usage_chunk :: "chunk \<Rightarrow> usage option" where
  "get_usage_chunk c =
     (case chunk_usage c of
        Present u \<Rightarrow> Some u
      | PyNone \<Rightarrow> None
      | Missing \<Rightarrow> if is_model_response c then hidden_usage c else None)"

text \<open>Lines 408 to 452: the body of the loop, for a chunk with a usage record.\<close>

definition usage_update :: "usage_per_chunk \<Rightarrow> usage_chunk_dict \<Rightarrow> usage_per_chunk" where
  "usage_update acc d =
     \<lparr>upc_prompt_tokens =
        (if d_prompt_tokens d > 0 then d_prompt_tokens d else upc_prompt_tokens acc),
      upc_completion_tokens =
        (if d_completion_tokens d > 0 then d_completion_tokens d else upc_completion_tokens acc),
      upc_cache_creation_input_tokens =
        (case d_cache_creation_input_tokens d of
           None \<Rightarrow> upc_cache_creation_input_tokens acc
         | Some n \<Rightarrow>
             if n > 0 \<or> upc_cache_creation_input_tokens acc = None then Some n
             else upc_cache_creation_input_tokens acc),
      upc_cache_read_input_tokens =
        (case d_cache_read_input_tokens d of
           None \<Rightarrow> upc_cache_read_input_tokens acc
         | Some n \<Rightarrow>
             if n > 0 \<or> upc_cache_read_input_tokens acc = None then Some n
             else upc_cache_read_input_tokens acc),
      upc_web_search_requests =
        (case d_prompt_tokens_details d of
           None \<Rightarrow> upc_web_search_requests acc
         | Some ptd \<Rightarrow>
             (case web_search_requests ptd of
                None \<Rightarrow> upc_web_search_requests acc
              | Some w \<Rightarrow> Some w)),
      upc_completion_tokens_details =
        (case d_completion_tokens_details d of
           None \<Rightarrow> upc_completion_tokens_details acc
         | Some ctd \<Rightarrow> Some ctd),
      upc_prompt_tokens_details = d_prompt_tokens_details d\<rparr>"

definition usage_step :: "usage_per_chunk \<Rightarrow> chunk \<Rightarrow> usage_per_chunk" where
  "usage_step acc c =
     (case get_usage_chunk c of
        None \<Rightarrow> acc
      | Some usage_chunk \<Rightarrow> usage_update acc (usage_chunk_calculation_helper usage_chunk))"

fun usage_loop :: "usage_per_chunk \<Rightarrow> chunk list \<Rightarrow> usage_per_chunk" where
  "usage_loop acc [] = acc"
| "usage_loop acc (c # cs) = usage_loop (usage_step acc c) cs"

definition calculate_usage_per_chunk :: "chunk list \<Rightarrow> usage_per_chunk" where
  "calculate_usage_per_chunk chunks = usage_loop usage_init chunks"

text \<open>
  \<^verbatim>\<open>token_counter\<close> is the external tokenizer of \<^verbatim>\<open>litellm.utils\<close>, a parameter of the
  model. \<^verbatim>\<open>calculate_usage\<close> calls it in two ways: on the model name and the message
  history, and on the model name and the completion text with
  \<^verbatim>\<open>count_response_tokens=True\<close>. It returns a count or raises.
\<close>

datatype token_counter_args =
  Count_Messages string "string list option"
| Count_Response_Text string string

type_synonym token_counter = "token_counter_args \<Rightarrow> py_error + int"

text \<open>
  The \<^verbatim>\<open>Usage\<close> object that \<^verbatim>\<open>calculate_usage\<close> fills and returns. The class is outside the
  files at hand. \<^verbatim>\<open>Usage()\<close> starts with both details fields null. The closing
  \<^verbatim>\<open>Usage(**returned_usage.model_dump())\<close> of line 559 rebuilds the object through the
  constructor, which keeps the fields it is given and, when the prompt details are
  null and \<^verbatim>\<open>cache_read_input_tokens\<close> is a number, creates prompt details with that number
  as \<^verbatim>\<open>cached_tokens\<close>; \<open>usage_rebuild\<close> models this step.
\<close>

record returned_usage =
  ru_prompt_tokens :: int
  ru_completion_tokens :: int
  ru_total_tokens :: int
  ru_cache_creation_input_tokens :: "int option"
  ru_cache_read_input_tokens :: "int option"
  ru_completion_tokens_details :: "completion_tokens_details option"
  ru_prompt_tokens_details :: "prompt_tokens_details option"

definition usage_rebuild :: "returned_usage \<Rightarrow> returned_usage" where
  "usage_rebuild u =
     u\<lparr>ru_prompt_tokens_details :=
         (case ru_prompt_tokens_details u of
            Some det \<Rightarrow> Some det
          | None \<Rightarrow>
              (case ru_cache_read_input_tokens u of
                 None \<Rightarrow> None
               | Some n \<Rightarrow> Some \<lparr>cached_tokens = Some n, web_search_requests = None\<rparr>))\<rparr>"

text \<open>Lines 529 to 543: the completion details, with the caller's \<^verbatim>\<open>reasoning_tokens\<close>.\<close>

definition final_completion_tokens_details ::
  "completion_tokens_details option \<Rightarrow> int option \<Rightarrow> completion_tokens_details option" where
  "final_completion_tokens_details ctd reasoning =
     (case reasoning of
        None \<Rightarrow> ctd
      | Some r \<Rightarrow>
          (case ctd of
             None \<Rightarrow> Some \<lparr>reasoning_tokens = Some r, audio_tokens = None\<rparr>
           | Some det \<Rightarrow>
               if reasoning_tokens det = None then Some (det\<lparr>reasoning_tokens := Some r\<rparr>)
               else Some det))"

text \<open>Lines 544 to 555: the prompt details, with the aggregated \<^verbatim>\<open>web_search_requests\<close>.\<close>

definition final_prompt_tokens_details ::
  "prompt_tokens_details option \<Rightarrow> int option \<Rightarrow> prompt_tokens_details option" where
  "final_prompt_tokens_details ptd web =
     (case web of
        None \<Rightarrow> ptd
      | Some w \<Rightarrow>
          (case ptd of
             None \<Rightarrow> Some \<lparr>cached_tokens = None, web_search_requests = Some w\<rparr>
           | Some det \<Rightarrow> Some (det\<lparr>web_search_requests := Some w\<rparr>)))"

text \<open>
  Lines 499 to 507: \<^verbatim>\<open>prompt_tokens or token_counter(...)\<close> inside \<^verbatim>\<open>try\<close>, every exception
  caught and replaced by zero.
\<close>

definition prompt_tokens_fallback :: "token_counter \<Rightarrow> int \<Rightarrow> string \<Rightarrow> string list option \<Rightarrow> int" where
  "prompt_tokens_fallback tc prompt mdl messages =
     (if prompt \<noteq> 0 then prompt
      else (case tc (Count_Messages mdl messages) of Inl e \<Rightarrow> 0 | Inr n \<Rightarrow> n))"

text \<open>Lines 508 to 512: the same for the completion tokens, outside any \<^verbatim>\<open>try\<close>.\<close>

definition completion_tokens_fallback :: "token_counter \<Rightarrow> int \<Rightarrow> string \<Rightarrow> string \<Rightarrow> py_error + int" where
  "completion_tokens_fallback tc completion mdl completion_output =
     (if completion \<noteq> 0 then Inr completion
      else tc (Count_Response_Text mdl completion_output))"

definition calculate_usage ::
  "token_counter \<Rightarrow> chunk list \<Rightarrow> string \<Rightarrow> string \<Rightarrow> string list option \<Rightarrow> int option
     \<Rightarrow> py_error + returned_usage" where
  "calculate_usage tc chunks mdl completion_output messages reasoning =
     (let per = calculate_usage_per_chunk chunks;
          prompt = prompt_tokens_fallback tc (upc_prompt_tokens per) mdl messages
      in case completion_tokens_fallback tc (upc_completion_tokens per) mdl completion_output of
           Inl e \<Rightarrow> Inl e
         | Inr completion \<Rightarrow>
             Inr (usage_rebuild
                   \<lparr>ru_prompt_tokens = prompt,
                    ru_completion_tokens = completion,
                    ru_total_tokens = prompt + completion,
                    ru_cache_creation_input_tokens = upc_cache_creation_input_tokens per,
                    ru_cache_read_input_tokens = upc_cache_read_input_tokens per,
                    ru_completion_tokens_details =
                      final_completion_tokens_details (upc_completion_tokens_details per) reasoning,
                    ru_prompt_tokens_details =
                      final_prompt_tokens_details (upc_prompt_tokens_details per)
                        (upc_web_search_requests per)\<rparr>))"

section \<open>Concatenation of base64 audio fragments\<close>

text \<open>
  \<^verbatim>\<open>base64.b64encode\<close> and \<^verbatim>\<open>base64.b64decode\<close> belong to Python's standard library. They
  are modelled after RFC 4648, which the library implements: three bytes make four
  characters of the standard alphabet, and a last group of one or two bytes is padded
  with \<^verbatim>\<open>=\<close>. The decoder accepts the canonical form (groups of four characters of the
  alphabet, padding in the last group only) and raises \<^verbatim>\<open>binascii.Error\<close> on anything
  else; the library's tolerance of stray characters is not modelled. A byte is an
  \<open>8 word\<close>.
\<close>

type_synonym byte = "8 word"

definition b64_alphabet :: string where
  "b64_alphabet = ''ABCDEFGHIJKLMNOPQRSTUVWXYZabcdefghijklmnopqrstuvwxyz0123456789+/''"

definition b64_char :: "nat \<Rightarrow> char" where
  "b64_char n = b64_alphabet ! (n mod 64)"

fun index_of :: "char \<Rightarrow> string \<Rightarrow> nat option" where
  "index_of c [] = None"
| "index_of c (x # xs) = (if x = c then Some 0 else map_option Suc (index_of c xs))"

definition b64_value :: "char \<Rightarrow> nat option" where
  "b64_value c = index_of c b64_alphabet"

fun b64encode :: "byte list \<Rightarrow> string" where
  "b64encode [] = []"
| "b64encode [a] =
     (let n = unat a * 16
      in [b64_char (n div 64), b64_char (n mod 64), CHR ''='', CHR ''=''])"
| "b64encode [a, b] =
     (let n = (unat a * 256 + unat b) * 4
      in [b64_char (n div 4096), b64_char (n div 64 mod 64), b64_char (n mod 64), CHR ''=''])"
| "b64encode (a # b # c # rest) =
     (let n = unat a * 65536 + unat b * 256 + unat c
      in [b64_char (n div 262144), b64_char (n div 4096 mod 64), b64_char (n div 64 mod 64),
          b64_char (n mod 64)] @ b64encode rest)"

text \<open>The bytes of one group of four characters; the group \<open>final\<close> may be padded.\<close>

definition decode_group :: "bool \<Rightarrow> char \<Rightarrow> char \<Rightarrow> char \<Rightarrow> char \<Rightarrow> byte list option" where
  "decode_group final c1 c2 c3 c4 =
     (case (b64_value c1, b64_value c2) of
        (Some v1, Some v2) \<Rightarrow>
          if final \<and> c3 = CHR ''='' \<and> c4 = CHR ''=''
          then Some [of_nat ((v1 * 64 + v2) div 16)]
          else
            (case b64_value c3 of
               None \<Rightarrow> None
             | Some v3 \<Rightarrow>
                 if final \<and> c4 = CHR ''=''
                 then (let n = v1 * 4096 + v2 * 64 + v3
                       in Some [of_nat (n div 1024), of_nat (n div 4 mod 256)])
                 else
                   (case b64_value c4 of
                      None \<Rightarrow> None
                    | Some v4 \<Rightarrow>
                        (let n = v1 * 262144 + v2 * 4096 + v3 * 64 + v4
                         in Some [of_nat (n div 65536), of_nat (n div 256 mod 256),
                                  of_nat (n mod 256)])))
      | _ \<Rightarrow> None)"

fun b64decode :: "string \<Rightarrow> py_error + byte list" where
  "b64decode [] = Inr []"
| "b64decode (c1 # c2 # c3 # c4 # rest) =
     (case decode_group (rest = []) c1 c2 c3 c4 of
        None \<Rightarrow> Inl Binascii_Error
      | Some bs \<Rightarrow>
          (case b64decode rest of
             Inl e \<Rightarrow> Inl e
           | Inr bs' \<Rightarrow> Inr (bs @ bs')))"
| "b64decode _ = Inl Binascii_Error"

text \<open>
  \<^verbatim>\<open>concatenate_base64_list\<close>: the generator decodes the strings in order, the first
  failure being raised; the bytes are joined and encoded once.
\<close>

fun decode_all :: "string list \<Rightarrow> py_error + byte list list" where
  "decode_all [] = Inr []"
| "decode_all (b64_str # base64_strings) =
     (case b64decode b64_str of
        Inl e \<Rightarrow> Inl e
      | Inr bs \<Rightarrow>
          (case decode_all base64_strings of
             Inl e \<Rightarrow> Inl e
           | Inr bss \<Rightarrow> Inr (bs # bss)))"

definition concatenate_base64_list :: "string list \<Rightarrow> py_error + string" where
  "concatenate_base64_list base64_strings =
     (case decode_all base64_strings of
        Inl e \<Rightarrow> Inl e
      | Inr bss \<Rightarrow> Inr (b64encode (concat bss)))"

section \<open>Specification-side definitions\<close>

text \<open>
  The finish reason the way the specification words it: the last value that the first
  choice of a chunk supplies (a null supplies nothing), and \<^verbatim>\<open>"stop"\<close> when none does.
\<close>

definition supplied_finish_reason :: "chunk \<Rightarrow> string option" where
  "supplied_finish_reason c =
     (case choices c of
        [] \<Rightarrow> None
      | ch # _ \<Rightarrow> (case finish_reason ch of Present s \<Rightarrow> Some s | _ \<Rightarrow> None))"

definition last_supplied_finish_reason :: "chunk list \<Rightarrow> string" where
  "last_supplied_finish_reason chunks =
     (let vs = List.map_filter supplied_finish_reason chunks
      in if vs = [] then ''stop'' else last vs)"

text \<open>
  The finish reason the way the loop computes it: the field of the first choice of the
  last chunk whose first choice carries the field at all, a null included.
\<close>

definition carried_finish_reason :: "chunk \<Rightarrow> string option option" where
  "carried_finish_reason c =
     (case choices c of
        [] \<Rightarrow> None
      | ch # _ \<Rightarrow>
          (case finish_reason ch of
             Missing \<Rightarrow> None
           | PyNone \<Rightarrow> Some None
           | Present s \<Rightarrow> Some (Some s)))"

definition last_carried_finish_reason :: "chunk list \<Rightarrow> string option" where
  "last_carried_finish_reason chunks =
     (let vs = List.map_filter carried_finish_reason chunks
      in if vs = [] then Some ''stop'' else last vs)"

text \<open>
  Ascending order of the ordering hint, a chunk without the hint counting as later than
  every chunk with one.
\<close>

definition hint_le :: "chunk \<Rightarrow> chunk \<Rightarrow> bool" where
  "hint_le a b =
     (case (hidden_created_at a, hidden_created_at b) of
        (Present s, Present t) \<Rightarrow> s \<le> t
      | (_, Present t) \<Rightarrow> False
      | (_, _) \<Rightarrow> True)"

text \<open>
  The last value of a list of optional strings that a truthiness test lets through.
\<close>

definition last_truthy :: "string option list \<Rightarrow> string option" where
  "last_truthy vs =
     (let ws = List.map_filter truthy_val vs in if ws = [] then None else Some (last ws))"

text \<open>
  The entries of \<^verbatim>\<open>thinking_blocks\<close> of a chunk sequence, in the order of the scan, and what
  the scan accumulates from them: an entry is of the redacted variant when its type says
  so, and of the thinking variant otherwise; a thinking entry contributes its non-empty
  text.
\<close>

definition choice_thinking_blocks :: "choice \<Rightarrow> thinking_block list" where
  "choice_thinking_blocks ch = (case thinking_blocks (get_delta ch) of None \<Rightarrow> [] | Some bs \<Rightarrow> bs)"

definition all_thinking_blocks :: "chunk list \<Rightarrow> thinking_block list" where
  "all_thinking_blocks chunks = concat (map (\<lambda>c. concat (map choice_thinking_blocks (choices c))) chunks)"

definition is_redacted :: "thinking_block \<Rightarrow> bool" where
  "is_redacted b = (tb_type b = Some ''redacted_thinking'')"

definition thinking_fragment :: "thinking_block \<Rightarrow> string" where
  "thinking_fragment b =
     (if is_redacted b then []
      else (case truthy_val (tb_thinking b) of None \<Rightarrow> [] | Some t \<Rightarrow> t))"

definition thinking_text :: "thinking_block list \<Rightarrow> string" where
  "thinking_text bs = concat (map thinking_fragment bs)"

text \<open>
  The thinking-block merger the way the specification words it: a redacted block with the
  latest data when the redacted variant was observed and there is no accumulated text
  with a signature; otherwise a thinking block with the concatenated text and the last
  non-null signature seen; absent when there is neither.
\<close>

definition thinking_as_stated :: "thinking_block list \<Rightarrow> thinking_result list option" where
  "thinking_as_stated bs =
     (let text = thinking_text bs;
          sg = last_truthy (map tb_signature (filter (\<lambda>b. \<not> is_redacted b) bs));
          redacted = filter is_redacted bs
      in if redacted \<noteq> [] \<and> (text = [] \<or> sg = None)
         then (case tb_data (last redacted) of
                 None \<Rightarrow> None
               | Some d \<Rightarrow> Some [Redacted_Thinking_Block d])
         else (case sg of
                 None \<Rightarrow> None
               | Some s \<Rightarrow> if text = [] then None else Some [Thinking_Block text s]))"

text \<open>
  The thinking-block merger the way the method computes it: the variant and the
  signature, or the data, are those of the last entry scanned.
\<close>

definition thinking_by_last :: "thinking_block list \<Rightarrow> thinking_result list option" where
  "thinking_by_last bs =
     (if bs = [] then None
      else if is_redacted (last bs)
      then (case truthy_val (tb_data (last bs)) of
              None \<Rightarrow> None
            | Some d \<Rightarrow> Some [Redacted_Thinking_Block d])
      else (case truthy_val (tb_signature (last bs)) of
              None \<Rightarrow> None
            | Some sg \<Rightarrow>
                if thinking_text bs = [] then None
                else Some [Thinking_Block (thinking_text bs) sg]))"

text \<open>
  The override rules of the usage scan, on a running value and the value of a later usage
  record: a counter is replaced by a later positive value; a cache counter also by any
  later value while it is unset; and, as the specification words the rule for
  \<open>prompt_tokens_details\<close>, a details record is replaced only while it is unset.
\<close>

definition override_on_positive :: "int \<Rightarrow> int option \<Rightarrow> int" where
  "override_on_positive running later =
     (case later of None \<Rightarrow> running | Some n \<Rightarrow> if 0 < n then n else running)"

definition override_on_positive_or_unset :: "int option \<Rightarrow> int option \<Rightarrow> int option" where
  "override_on_positive_or_unset running later =
     (case later of
        None \<Rightarrow> running
      | Some n \<Rightarrow> if 0 < n \<or> running = None then Some n else running)"

definition override_when_unset ::
  "prompt_tokens_details option \<Rightarrow> prompt_tokens_details option \<Rightarrow> prompt_tokens_details option" where
  "override_when_unset running later =
     (case later of
        None \<Rightarrow> running
      | Some d \<Rightarrow> if running = None then Some d else running)"

text \<open>
  The tool-call entries of a chunk sequence in the order of the scan, and those among them
  that the merger reads: the entries that are not skipped by the guard of line 130.
\<close>

definition choice_tool_calls :: "choice \<Rightarrow> tool_call_delta option list" where
  "choice_tool_calls ch = (case tool_calls (get_delta ch) of Present es \<Rightarrow> es | _ \<Rightarrow> [])"

definition all_tool_call_entries :: "chunk list \<Rightarrow> tool_call_delta option list" where
  "all_tool_call_entries chunks = concat (map (\<lambda>c. concat (map choice_tool_calls (choices c))) chunks)"


text \<open>
  The chunk sequences outside the data model of the specification, in which
  \<^verbatim>\<open>tool_calls\<close> is a sequence when it is there and the index of a tool call is an integer:
  a choice whose delta has a null \<^verbatim>\<open>tool_calls\<close>, and an entry read whose index is null.
\<close>

definition null_choice :: "choice \<Rightarrow> bool" where
  "null_choice ch = (tool_calls (get_delta ch) = PyNone)"

definition null_tool_calls :: "chunk list \<Rightarrow> bool" where
  "null_tool_calls chunks = list_ex (\<lambda>c. list_ex null_choice (choices c)) chunks"


text \<open>A chunk sequence without the entries that the guard skips.\<close>

definition without_skipped_delta :: "delta \<Rightarrow> delta" where
  "without_skipped_delta d =
     d\<lparr>tool_calls :=
         (case tool_calls d of
            Present es \<Rightarrow> Present (filter (\<lambda>e. \<not> skipped e) es)
          | v \<Rightarrow> v)\<rparr>"

definition without_skipped_choice :: "choice \<Rightarrow> choice" where
  "without_skipped_choice ch = ch\<lparr>delta := map_option without_skipped_delta (delta ch)\<rparr>"

definition without_skipped :: "chunk \<Rightarrow> chunk" where
  "without_skipped c = c\<lparr>choices := map without_skipped_choice (choices c)\<rparr>"









section \<open>Example inputs\<close>

text \<open>Concrete chunks and token counters, on which the theorems below are evaluated.\<close>

definition plain_chunk :: chunk where
  "plain_chunk =
     \<lparr>chunk_id = Some ''chatcmpl-1'', chunk_object = ''chat.completion.chunk'', created = 1700000000,
      model = ''gpt-4o'', system_fingerprint = None, choices = [], chunk_usage = Missing,
      is_model_response = True, hidden_created_at = Missing, hidden_usage = None\<rparr>"

definition no_usage :: usage where
  "no_usage =
     \<lparr>prompt_tokens = None, completion_tokens = None, total_tokens = None,
      cache_creation_input_tokens = None, cache_read_input_tokens = None,
      usage_completion_tokens_details = None, usage_prompt_tokens_details = None\<rparr>"

definition usage_chunk_of :: "usage \<Rightarrow> chunk" where
  "usage_chunk_of u = plain_chunk\<lparr>chunk_usage := Present u\<rparr>"

text \<open>A tokenizer that raises on a message history and counts characters of a text.\<close>

definition prompt_failing_counter :: token_counter where
  "prompt_failing_counter a =
     (case a of
        Count_Messages m msgs \<Rightarrow> Inl (Token_Counter_Error ''no tokenizer'')
      | Count_Response_Text m t \<Rightarrow> Inr (int (length t)))"

definition failing_counter :: token_counter where
  "failing_counter a = Inl (Token_Counter_Error ''no tokenizer'')"

definition finish_chunk :: "string pyfield \<Rightarrow> chunk" where
  "finish_chunk fr =
     plain_chunk\<lparr>choices :=
       [\<lparr>delta = Some (empty_delta\<lparr>role := Some ''assistant''\<rparr>), finish_reason = fr\<rparr>]\<rparr>"

definition hinted_chunk :: "real pyfield \<Rightarrow> chunk" where
  "hinted_chunk t = plain_chunk\<lparr>hidden_created_at := t\<rparr>"

definition thinking_entry :: "string \<Rightarrow> string option \<Rightarrow> thinking_block" where
  "thinking_entry t sg =
     \<lparr>tb_type = Some ''thinking'', tb_thinking = Some t, tb_data = None, tb_signature = sg\<rparr>"

definition redacted_entry :: "string \<Rightarrow> thinking_block" where
  "redacted_entry d =
     \<lparr>tb_type = Some ''redacted_thinking'', tb_thinking = None, tb_data = Some d,
      tb_signature = None\<rparr>"

definition thinking_chunk :: "thinking_block list \<Rightarrow> chunk" where
  "thinking_chunk bs =
     plain_chunk\<lparr>choices :=
       [\<lparr>delta = Some (empty_delta\<lparr>thinking_blocks := Some bs\<rparr>), finish_reason = PyNone\<rparr>]\<rparr>"

definition details_chunk :: "prompt_tokens_details option \<Rightarrow> chunk" where
  "details_chunk d =
     usage_chunk_of (no_usage\<lparr>prompt_tokens := Some 10, usage_prompt_tokens_details := d\<rparr>)"

definition function_entry ::
  "int pyfield \<Rightarrow> string option \<Rightarrow> string option \<Rightarrow> string option \<Rightarrow> string option
     \<Rightarrow> tool_call_delta option" where
  "function_entry i ident kind name args =
     Some \<lparr>tc_index = i, tc_id = ident, tc_type = kind,
           tc_function = Present \<lparr>fn_name = name, fn_arguments = args\<rparr>\<rparr>"

definition bare_entry :: "int pyfield \<Rightarrow> string option \<Rightarrow> tool_call_delta option" where
  "bare_entry i ident =
     Some \<lparr>tc_index = i, tc_id = ident, tc_type = Some ''function'', tc_function = Missing\<rparr>"

definition tool_chunk :: "tool_call_delta option list \<Rightarrow> chunk" where
  "tool_chunk es =
     plain_chunk\<lparr>choices :=
       [\<lparr>delta = Some (empty_delta\<lparr>tool_calls := Present es\<rparr>), finish_reason = PyNone\<rparr>]\<rparr>"


section \<open>Properties of the content merger\<close>

lemma content_choices_acc: "content_choices k acc chs = acc @ content_choices k [] chs"
proof (induction chs arbitrary: acc)
  case Nil
  show ?case by simp
next
  case (Cons ch chs)
  show ?case
  proof (cases "delta_get (get_delta ch) k")
    case Missing
    then show ?thesis
      using Cons.IH [of "acc @ [[]]"] Cons.IH [of "[[]]"] by simp
  next
    case PyNone
    then show ?thesis
      using Cons.IH [of acc] by simp
  next
    case (Present s)
    then show ?thesis
      using Cons.IH [of "acc @ [s]"] Cons.IH [of "[s]"] by simp
  qed
qed

lemma content_chunks_acc: "content_chunks k acc cs = acc @ content_chunks k [] cs"
proof (induction cs arbitrary: acc)
  case Nil
  show ?case by simp
next
  case (Cons c cs)
  have "content_chunks k acc (c # cs) = content_choices k acc (choices c) @ content_chunks k [] cs"
    using Cons.IH [of "content_choices k acc (choices c)"] by simp
  also have "\<dots> = acc @ content_choices k [] (choices c) @ content_chunks k [] cs"
    using content_choices_acc [of k acc "choices c"] by simp
  also have "\<dots> = acc @ content_chunks k [] (c # cs)"
    using Cons.IH [of "content_choices k [] (choices c)"] by simp
  finally show ?case .
qed

lemma content_chunks_append:
  "content_chunks k acc (xs @ ys) = content_chunks k (content_chunks k acc xs) ys"
  by (induction xs arbitrary: acc) simp_all

text \<open>
  Claim C9. The content merge is a homomorphism over concatenation of chunk sequences:
  merging a sequence split into two contiguous parts and concatenating the two results
  gives the merge of the whole sequence, for the content key and for the reasoning key.
\<close>

theorem get_combined_content_append:
  "get_combined_content (xs @ ys) k = get_combined_content xs k @ get_combined_content ys k"
proof -
  have "content_chunks k [] (xs @ ys) = content_chunks k [] xs @ content_chunks k [] ys"
    using content_chunks_append [of k "[]" xs ys]
      content_chunks_acc [of k "content_chunks k [] xs" ys]
    by simp
  then show ?thesis by (simp add: get_combined_content_def)
qed

section \<open>Properties of the usage aggregator\<close>

lemma usage_rebuild_counts:
  "ru_prompt_tokens (usage_rebuild u) = ru_prompt_tokens u"
  "ru_completion_tokens (usage_rebuild u) = ru_completion_tokens u"
  "ru_total_tokens (usage_rebuild u) = ru_total_tokens u"
  by (simp_all add: usage_rebuild_def)

lemma usage_step_prompt_nonneg:
  "0 \<le> upc_prompt_tokens acc \<Longrightarrow> 0 \<le> upc_prompt_tokens (usage_step acc c)"
  by (simp add: usage_step_def usage_update_def split: option.splits)

lemma usage_step_completion_nonneg:
  "0 \<le> upc_completion_tokens acc \<Longrightarrow> 0 \<le> upc_completion_tokens (usage_step acc c)"
  by (simp add: usage_step_def usage_update_def split: option.splits)

lemma usage_loop_nonneg:
  "0 \<le> upc_prompt_tokens acc \<Longrightarrow> 0 \<le> upc_completion_tokens acc \<Longrightarrow>
   0 \<le> upc_prompt_tokens (usage_loop acc cs) \<and> 0 \<le> upc_completion_tokens (usage_loop acc cs)"
  by (induction cs arbitrary: acc)
     (simp_all add: usage_step_prompt_nonneg usage_step_completion_nonneg)

lemma calculate_usage_per_chunk_nonneg:
  "0 \<le> upc_prompt_tokens (calculate_usage_per_chunk chunks)"
  "0 \<le> upc_completion_tokens (calculate_usage_per_chunk chunks)"
  using usage_loop_nonneg [of usage_init chunks]
  by (simp_all add: calculate_usage_per_chunk_def usage_init_def)

lemma per_chunk_empty:
  "upc_prompt_tokens (calculate_usage_per_chunk []) = 0"
  "upc_completion_tokens (calculate_usage_per_chunk []) = 0"
  by (simp_all add: calculate_usage_per_chunk_def usage_init_def)

lemma per_chunk_single:
  "upc_prompt_tokens (calculate_usage_per_chunk
      [usage_chunk_of (no_usage\<lparr>prompt_tokens := Some p, completion_tokens := Some c\<rparr>)])
     = (if 0 < p then p else 0)"
  "upc_completion_tokens (calculate_usage_per_chunk
      [usage_chunk_of (no_usage\<lparr>prompt_tokens := Some p, completion_tokens := Some c\<rparr>)])
     = (if 0 < c then c else 0)"
  by (simp_all add: calculate_usage_per_chunk_def usage_step_def usage_update_def
      usage_chunk_calculation_helper_def get_usage_chunk_def usage_chunk_of_def plain_chunk_def
      no_usage_def usage_init_def)

text \<open>
  Claim C6. Whenever \<^verbatim>\<open>calculate_usage\<close> returns a usage object, its \<open>total_tokens\<close> is
  the sum of its \<open>prompt_tokens\<close> and its \<open>completion_tokens\<close>, whatever the chunks carry
  in their own \<open>total_tokens\<close>.
\<close>

theorem calculate_usage_total_tokens:
  "calculate_usage tc chunks mdl completion_output messages reasoning = Inr u \<Longrightarrow>
   ru_total_tokens u = ru_prompt_tokens u + ru_completion_tokens u"
  by (auto simp: calculate_usage_def Let_def usage_rebuild_counts split: sum.splits)

text \<open>
  On a chunk whose usage announces 3 prompt tokens, 4 completion tokens and a total of
  999, the returned total is 7.
\<close>

theorem calculate_usage_total_tokens_witness:
  "\<exists>u. calculate_usage failing_counter
          [usage_chunk_of (no_usage\<lparr>prompt_tokens := Some 3, completion_tokens := Some 4,
             total_tokens := Some 999\<rparr>)]
          ''gpt-4o'' ''Hello'' None None = Inr u
       \<and> ru_total_tokens u = ru_prompt_tokens u + ru_completion_tokens u
       \<and> ru_total_tokens u = 7"
proof -
  let ?chunks = "[usage_chunk_of (no_usage\<lparr>prompt_tokens := Some 3, completion_tokens := Some 4,
             total_tokens := Some 999\<rparr>)]"
  have per: "upc_prompt_tokens (calculate_usage_per_chunk ?chunks) = 3"
    "upc_completion_tokens (calculate_usage_per_chunk ?chunks) = 4"
    by (simp_all add: calculate_usage_per_chunk_def usage_step_def usage_update_def
        usage_chunk_calculation_helper_def get_usage_chunk_def usage_chunk_of_def plain_chunk_def
        no_usage_def usage_init_def)
  obtain u where h: "calculate_usage failing_counter ?chunks ''gpt-4o'' ''Hello'' None None = Inr u"
    and v: "ru_prompt_tokens u = 3" "ru_completion_tokens u = 4"
    using per by (simp add: calculate_usage_def Let_def usage_rebuild_counts prompt_tokens_fallback_def
        completion_tokens_fallback_def)
  from calculate_usage_total_tokens [OF h] h v show ?thesis by simp
qed

text \<open>
  Claim C7. The prompt-token fallback is taken only when the aggregated prompt tokens are
  not positive; when the token counter raises there, \<^verbatim>\<open>calculate_usage\<close> still returns,
  with zero prompt tokens (first part). When the token counter raises in the
  completion-token fallback, the exception leaves \<^verbatim>\<open>calculate_usage\<close> (second part). With
  positive aggregated prompt tokens the counter is not consulted for the prompt: the
  returned prompt tokens are the aggregated ones (third part).
\<close>

theorem calculate_usage_token_counter_failure:
  "(upc_prompt_tokens (calculate_usage_per_chunk chunks) \<le> 0
      \<and> tc (Count_Messages mdl messages) = Inl e
      \<and> completion_tokens_fallback tc (upc_completion_tokens (calculate_usage_per_chunk chunks))
           mdl completion_output = Inr n
    \<longrightarrow> (\<exists>u. calculate_usage tc chunks mdl completion_output messages reasoning = Inr u
           \<and> ru_prompt_tokens u = 0 \<and> ru_completion_tokens u = n \<and> ru_total_tokens u = n))
   \<and> (upc_completion_tokens (calculate_usage_per_chunk chunks) \<le> 0
      \<and> tc (Count_Response_Text mdl completion_output) = Inl e
    \<longrightarrow> calculate_usage tc chunks mdl completion_output messages reasoning = Inl e)
   \<and> (0 < upc_prompt_tokens (calculate_usage_per_chunk chunks)
      \<and> calculate_usage tc chunks mdl completion_output messages reasoning = Inr u
    \<longrightarrow> ru_prompt_tokens u = upc_prompt_tokens (calculate_usage_per_chunk chunks))"
proof (intro conjI impI)
  assume a: "upc_prompt_tokens (calculate_usage_per_chunk chunks) \<le> 0
      \<and> tc (Count_Messages mdl messages) = Inl e
      \<and> completion_tokens_fallback tc (upc_completion_tokens (calculate_usage_per_chunk chunks))
           mdl completion_output = Inr n"
  then have "upc_prompt_tokens (calculate_usage_per_chunk chunks) = 0"
    using calculate_usage_per_chunk_nonneg(1) [of chunks] by simp
  with a show "\<exists>u. calculate_usage tc chunks mdl completion_output messages reasoning = Inr u
           \<and> ru_prompt_tokens u = 0 \<and> ru_completion_tokens u = n \<and> ru_total_tokens u = n"
    by (simp add: calculate_usage_def Let_def usage_rebuild_counts prompt_tokens_fallback_def)
next
  assume a: "upc_completion_tokens (calculate_usage_per_chunk chunks) \<le> 0
      \<and> tc (Count_Response_Text mdl completion_output) = Inl e"
  then have "upc_completion_tokens (calculate_usage_per_chunk chunks) = 0"
    using calculate_usage_per_chunk_nonneg(2) [of chunks] by simp
  with a show "calculate_usage tc chunks mdl completion_output messages reasoning = Inl e"
    by (simp add: calculate_usage_def Let_def usage_rebuild_counts completion_tokens_fallback_def)
next
  assume "0 < upc_prompt_tokens (calculate_usage_per_chunk chunks)
      \<and> calculate_usage tc chunks mdl completion_output messages reasoning = Inr u"
  then show "ru_prompt_tokens u = upc_prompt_tokens (calculate_usage_per_chunk chunks)"
    by (auto simp: calculate_usage_def Let_def usage_rebuild_counts prompt_tokens_fallback_def split: sum.splits)
qed

theorem calculate_usage_token_counter_failure_witness:
  "(\<exists>u. calculate_usage prompt_failing_counter [] ''gpt-4o'' ''Hello'' (Some [''Hi'']) None = Inr u
        \<and> ru_prompt_tokens u = 0 \<and> ru_completion_tokens u = 5 \<and> ru_total_tokens u = 5)
   \<and> calculate_usage failing_counter [] ''gpt-4o'' ''Hello'' (Some [''Hi'']) None
       = Inl (Token_Counter_Error ''no tokenizer'')
   \<and> (\<exists>u. calculate_usage failing_counter
          [usage_chunk_of (no_usage\<lparr>prompt_tokens := Some 42, completion_tokens := Some 4\<rparr>)]
          ''gpt-4o'' ''Hello'' (Some [''Hi'']) None = Inr u
        \<and> ru_prompt_tokens u = 42)"
proof (intro conjI)
  have "upc_prompt_tokens (calculate_usage_per_chunk []) \<le> 0
      \<and> prompt_failing_counter (Count_Messages ''gpt-4o'' (Some [''Hi'']))
          = Inl (Token_Counter_Error ''no tokenizer'')
      \<and> completion_tokens_fallback prompt_failing_counter
           (upc_completion_tokens (calculate_usage_per_chunk [])) ''gpt-4o'' ''Hello'' = Inr 5"
    by (simp add: per_chunk_empty prompt_failing_counter_def completion_tokens_fallback_def)
  then show "\<exists>u. calculate_usage prompt_failing_counter [] ''gpt-4o'' ''Hello'' (Some [''Hi'']) None = Inr u
        \<and> ru_prompt_tokens u = 0 \<and> ru_completion_tokens u = 5 \<and> ru_total_tokens u = 5"
    using calculate_usage_token_counter_failure
      [of "[]" prompt_failing_counter "''gpt-4o''" "Some [''Hi'']" "Token_Counter_Error ''no tokenizer''"
          "''Hello''" 5 None]
    by blast
next
  have "upc_completion_tokens (calculate_usage_per_chunk []) \<le> 0
      \<and> failing_counter (Count_Response_Text ''gpt-4o'' ''Hello'')
          = Inl (Token_Counter_Error ''no tokenizer'')"
    by (simp add: per_chunk_empty failing_counter_def)
  then show "calculate_usage failing_counter [] ''gpt-4o'' ''Hello'' (Some [''Hi'']) None
       = Inl (Token_Counter_Error ''no tokenizer'')"
    using calculate_usage_token_counter_failure
      [of "[]" failing_counter "''gpt-4o''" "Some [''Hi'']" "Token_Counter_Error ''no tokenizer''"
          "''Hello''" 0 None]
    by blast
next
  let ?chunks = "[usage_chunk_of (no_usage\<lparr>prompt_tokens := Some 42, completion_tokens := Some 4\<rparr>)]"
  obtain u where h: "calculate_usage failing_counter ?chunks ''gpt-4o'' ''Hello'' (Some [''Hi'']) None = Inr u"
    by (simp add: calculate_usage_def Let_def usage_rebuild_counts completion_tokens_fallback_def per_chunk_single)
  have pos: "0 < upc_prompt_tokens (calculate_usage_per_chunk ?chunks)"
    by (simp add: per_chunk_single)
  have "ru_prompt_tokens u = upc_prompt_tokens (calculate_usage_per_chunk ?chunks)"
    using calculate_usage_token_counter_failure
      [of ?chunks failing_counter "''gpt-4o''" "Some [''Hi'']" "Token_Counter_Error ''no tokenizer''"
          "''Hello''" 0 None u] pos h
    by blast
  then show "\<exists>u. calculate_usage failing_counter ?chunks ''gpt-4o'' ''Hello'' (Some [''Hi'']) None = Inr u
        \<and> ru_prompt_tokens u = 42"
    using h by (simp add: per_chunk_single)
qed

section \<open>Properties of the base-response builder\<close>

lemma finish_reason_step_carried:
  "finish_reason_step fr c = (case carried_finish_reason c of None \<Rightarrow> fr | Some v \<Rightarrow> v)"
  by (simp add: finish_reason_step_def carried_finish_reason_def split: list.splits pyfield.splits)

lemma finish_reason_loop_last:
  "finish_reason_loop fr cs =
     (if List.map_filter carried_finish_reason cs = [] then fr
      else last (List.map_filter carried_finish_reason cs))"
proof (induction cs arbitrary: fr)
  case Nil
  show ?case by simp
next
  case (Cons c cs)
  show ?case
    by (cases "carried_finish_reason c")
       (simp_all add: Cons.IH finish_reason_step_carried)
qed

text \<open>
  Claim C4, as amended. Whenever \<^verbatim>\<open>build_base_response\<close> returns, the finish reason of the
  response is decided by the \<open>finish_reason\<close> field of the first choice of the last chunk
  that has a choice and whose first choice carries the field: it is that value, as the
  response normalises it through \<^verbatim>\<open>map_finish_reason\<close>, when the value is not null, and
  \<^verbatim>\<open>"stop"\<close> when it is null. It is \<^verbatim>\<open>"stop"\<close>, normalised, when no chunk has such a first
  choice.
\<close>

theorem build_base_response_finish_reason:
  "build_base_response map_finish_reason first_chunk chunks = Inr r \<Longrightarrow>
   mr_finish_reason r =
     (case last_carried_finish_reason chunks of
        None \<Rightarrow> ''stop''
      | Some s \<Rightarrow> map_finish_reason s)"
  by (auto simp: build_base_response_def choices_finish_reason_def
      last_carried_finish_reason_def finish_reason_loop_last
      split: list.splits option.splits)

text \<open>
  With the identity for \<^verbatim>\<open>map_finish_reason\<close>: the last carried value wins over an earlier
  one, and a chunk without choices or without the field changes nothing.
\<close>

theorem build_base_response_finish_reason_witness:
  "\<exists>r. build_base_response (\<lambda>s. s) (finish_chunk (Present ''length''))
          [finish_chunk (Present ''length''), finish_chunk Missing, finish_chunk (Present ''tool_calls''),
           plain_chunk] = Inr r
       \<and> mr_finish_reason r = ''tool_calls''"
proof -
  let ?cs = "[finish_chunk (Present ''length''), finish_chunk Missing, finish_chunk (Present ''tool_calls''),
           plain_chunk]"
  obtain r where h: "build_base_response (\<lambda>s. s) (finish_chunk (Present ''length'')) ?cs = Inr r"
    by (simp add: build_base_response_def finish_chunk_def plain_chunk_def)
  have "last_carried_finish_reason ?cs = Some ''tool_calls''"
    by (simp add: last_carried_finish_reason_def carried_finish_reason_def finish_chunk_def
        plain_chunk_def)
  with build_base_response_finish_reason [OF h] h show ?thesis by simp
qed

text \<open>
  The claim as stated fails: after a chunk with finish reason \<^verbatim>\<open>"length"\<close> and a chunk whose
  first choice has a null finish reason, the last supplied value is \<^verbatim>\<open>"length"\<close>, and the
  response has the finish reason \<^verbatim>\<open>"stop"\<close>.
\<close>

theorem finish_reason_last_null_counterexample:
  "map_sum id mr_finish_reason
     (build_base_response (\<lambda>s. s) (finish_chunk (Present ''length''))
        [finish_chunk (Present ''length''), finish_chunk PyNone]) = Inr ''stop''
   \<and> last_supplied_finish_reason [finish_chunk (Present ''length''), finish_chunk PyNone] = ''length''"
  by (simp add: build_base_response_def choices_finish_reason_def finish_reason_step_def
      last_supplied_finish_reason_def supplied_finish_reason_def finish_chunk_def plain_chunk_def)

section \<open>Properties of the chunk orderer\<close>

lemma hint_le_key: "hint_le a b \<longleftrightarrow> created_at_key a \<le> created_at_key b"
  by (auto simp: hint_le_def created_at_key_def split: pyfield.splits)

lemma sort_key_hint_sorted: "sorted_wrt hint_le (sort_key created_at_key xs)"
proof -
  have "sorted (map created_at_key (sort_key created_at_key xs))"
    by (rule sorted_sort_key)
  then show ?thesis
    by (simp add: sorted_map hint_le_key [abs_def])
qed

lemma sort_key_hint_stable:
  assumes "\<not> list_ex null_created_at xs"
  shows "filter (\<lambda>x. hidden_created_at x = k) (sort_key created_at_key xs)
     = filter (\<lambda>x. hidden_created_at x = k) xs"
proof -
  define key where "key = (case k of Present t \<Rightarrow> (False, t) | _ \<Rightarrow> (True, 0::real))"
  have nn: "\<And>x. x \<in> set xs \<Longrightarrow> hidden_created_at x \<noteq> PyNone"
    using assms by (auto simp: list_ex_iff null_created_at_def)
  show ?thesis
  proof (cases "k = PyNone")
    case True
    have "filter (\<lambda>x. hidden_created_at x = k) (sort_key created_at_key xs) = []"
      using nn True by (auto simp: filter_empty_conv)
    moreover have "filter (\<lambda>x. hidden_created_at x = k) xs = []"
      using nn True by (auto simp: filter_empty_conv)
    ultimately show ?thesis by simp
  next
    case False
    have eq: "\<And>x. x \<in> set xs \<Longrightarrow> (hidden_created_at x = k) = (created_at_key x = key)"
      using nn False by (auto simp: key_def created_at_key_def split: pyfield.splits)
    have "filter (\<lambda>x. hidden_created_at x = k) (sort_key created_at_key xs)
        = filter (\<lambda>x. created_at_key x = key) (sort_key created_at_key xs)"
      using eq by (intro filter_cong) simp_all
    also have "\<dots> = filter (\<lambda>x. created_at_key x = key) xs"
      by (rule sort_key_stable)
    also have "\<dots> = filter (\<lambda>x. hidden_created_at x = k) xs"
      using eq by (intro filter_cong) simp_all
    finally show ?thesis .
  qed
qed

lemma hinted_chunk_eval:
  "hidden_created_at (hinted_chunk t) = t"
  by (simp add: hinted_chunk_def)

lemma hinted_chunk_inj: "hinted_chunk s = hinted_chunk t \<longleftrightarrow> s = t"
  by (metis hinted_chunk_eval)

text \<open>
  A null hint behind a first chunk with a populated hint makes the sort raise.
\<close>

lemma sort_chunks_null_hint:
  "truthy_num (hidden_created_at c) \<Longrightarrow> list_ex null_created_at cs \<Longrightarrow>
   sort_chunks (c # cs) = Inl TypeError"
  by (simp add: sort_chunks_def)

text \<open>
  Claim C3, as amended. The orderer looks at the first chunk only. When the first chunk
  carries a populated hint and no chunk carries a null hint, it returns the sequence
  sorted ascending by the hint, a chunk without the hint coming after every chunk with
  one, and chunks of equal hint (or both without) keep their relative order. When the
  first chunk carries no populated hint, or the sequence is empty, it returns the
  sequence as it is and raises nothing. In particular (second part) a sequence whose
  chunks all carry a populated hint comes back sorted and stable.
\<close>

theorem sort_chunks_by_first_hint:
  "(case chunks of
      [] \<Rightarrow> sort_chunks chunks = Inr []
    | c # cs \<Rightarrow>
        if truthy_num (hidden_created_at c)
        then \<not> list_ex null_created_at chunks \<longrightarrow>
          (\<exists>r. sort_chunks chunks = Inr r
             \<and> sorted_wrt hint_le r
             \<and> mset r = mset chunks
             \<and> (\<forall>k. filter (\<lambda>x. hidden_created_at x = k) r
                    = filter (\<lambda>x. hidden_created_at x = k) chunks))
        else sort_chunks chunks = Inr chunks)
   \<and> ((\<forall>c \<in> set chunks. truthy_num (hidden_created_at c)) \<longrightarrow>
        (\<exists>r. sort_chunks chunks = Inr r
           \<and> sorted_wrt hint_le r
           \<and> mset r = mset chunks
           \<and> (\<forall>k. filter (\<lambda>x. hidden_created_at x = k) r
                  = filter (\<lambda>x. hidden_created_at x = k) chunks)))"
proof (cases chunks)
  case Nil
  then show ?thesis by (simp add: sort_chunks_def)
next
  case (Cons c cs)
  have sorted_case: "\<exists>r. sort_chunks chunks = Inr r
             \<and> sorted_wrt hint_le r
             \<and> mset r = mset chunks
             \<and> (\<forall>k. filter (\<lambda>x. hidden_created_at x = k) r
                    = filter (\<lambda>x. hidden_created_at x = k) chunks)"
    if t: "truthy_num (hidden_created_at c)" and n: "\<not> list_ex null_created_at chunks"
  proof -
    have eq: "sort_chunks chunks = Inr (sort_key created_at_key chunks)"
      using Cons t n by (simp add: sort_chunks_def)
    show ?thesis
      unfolding eq using n by (simp add: sort_key_hint_sorted sort_key_hint_stable)
  qed
  have all_case: "\<not> list_ex null_created_at chunks"
    if "\<forall>x \<in> set chunks. truthy_num (hidden_created_at x)"
    using that by (auto simp: list_ex_iff null_created_at_def truthy_num_def)
  show ?thesis
  proof (cases "truthy_num (hidden_created_at c)")
    case True
    have first: "\<not> list_ex null_created_at chunks \<longrightarrow>
          (\<exists>r. sort_chunks chunks = Inr r
             \<and> sorted_wrt hint_le r
             \<and> mset r = mset chunks
             \<and> (\<forall>k. filter (\<lambda>x. hidden_created_at x = k) r
                    = filter (\<lambda>x. hidden_created_at x = k) chunks))"
      using sorted_case [OF True] by blast
    have second: "(\<forall>x \<in> set chunks. truthy_num (hidden_created_at x)) \<longrightarrow>
        (\<exists>r. sort_chunks chunks = Inr r
           \<and> sorted_wrt hint_le r
           \<and> mset r = mset chunks
           \<and> (\<forall>k. filter (\<lambda>x. hidden_created_at x = k) r
                  = filter (\<lambda>x. hidden_created_at x = k) chunks))"
      using sorted_case [OF True] all_case by blast
    from first second show ?thesis
      unfolding Cons using True by simp
  next
    case False
    then have "sort_chunks chunks = Inr chunks"
      using Cons by (simp add: sort_chunks_def)
    then show ?thesis
      unfolding Cons using False by simp
  qed
qed

text \<open>
  Three sequences: partial hints behind a hinted first chunk, partial hints behind a
  first chunk without hint, and hints on every chunk.
\<close>

theorem sort_chunks_by_first_hint_witness:
  "sort_chunks [hinted_chunk (Present 2), hinted_chunk Missing, hinted_chunk (Present 1)]
     = Inr [hinted_chunk (Present 1), hinted_chunk (Present 2), hinted_chunk Missing]
   \<and> sort_chunks [hinted_chunk Missing, hinted_chunk (Present 2), hinted_chunk (Present 1)]
       = Inr [hinted_chunk Missing, hinted_chunk (Present 2), hinted_chunk (Present 1)]
   \<and> (\<exists>r. sort_chunks [hinted_chunk (Present 3), hinted_chunk (Present 1), hinted_chunk (Present 2)]
            = Inr r \<and> sorted_wrt hint_le r)"
proof -
  have a: "truthy_num (hidden_created_at (hinted_chunk (Present 2)))"
    and b: "\<not> truthy_num (hidden_created_at (hinted_chunk Missing))"
    and c: "\<forall>c \<in> set [hinted_chunk (Present 3), hinted_chunk (Present 1), hinted_chunk (Present 2)].
              truthy_num (hidden_created_at c)"
    and n: "\<not> list_ex null_created_at
              [hinted_chunk (Present 2), hinted_chunk Missing, hinted_chunk (Present 1)]"
    by (simp_all add: truthy_num_def hinted_chunk_eval null_created_at_def)
  have e: "sort_chunks [hinted_chunk (Present 2), hinted_chunk Missing, hinted_chunk (Present 1)]
     = Inr [hinted_chunk (Present 1), hinted_chunk (Present 2), hinted_chunk Missing]"
    by (simp add: sort_chunks_def truthy_num_def hinted_chunk_eval created_at_key_def
        null_created_at_def)
  have "\<exists>r. sort_chunks [hinted_chunk (Present 3), hinted_chunk (Present 1), hinted_chunk (Present 2)]
            = Inr r \<and> sorted_wrt hint_le r"
    using sort_chunks_by_first_hint
        [of "[hinted_chunk (Present 3), hinted_chunk (Present 1), hinted_chunk (Present 2)]"] c
    by blast
  moreover have "sort_chunks [hinted_chunk Missing, hinted_chunk (Present 2), hinted_chunk (Present 1)]
       = Inr [hinted_chunk Missing, hinted_chunk (Present 2), hinted_chunk (Present 1)]"
    using sort_chunks_by_first_hint
        [of "[hinted_chunk Missing, hinted_chunk (Present 2), hinted_chunk (Present 1)]"] b
    by simp
  moreover have "\<exists>r. sort_chunks [hinted_chunk (Present 2), hinted_chunk Missing, hinted_chunk (Present 1)]
      = Inr r \<and> sorted_wrt hint_le r"
    using sort_chunks_by_first_hint
        [of "[hinted_chunk (Present 2), hinted_chunk Missing, hinted_chunk (Present 1)]"] a n
    by auto
  ultimately show ?thesis
    using e by simp
qed

text \<open>
  The claim as stated fails on a sequence with partial hints whose first chunk has one:
  the chunk without the hint moves to the end, and the hinted chunks are sorted.
\<close>

theorem sort_chunks_partial_hints_counterexample:
  "\<not> truthy_num (hidden_created_at (hinted_chunk Missing))
   \<and> sort_chunks [hinted_chunk (Present 2), hinted_chunk Missing, hinted_chunk (Present 1)]
       = Inr [hinted_chunk (Present 1), hinted_chunk (Present 2), hinted_chunk Missing]
   \<and> sort_chunks [hinted_chunk (Present 2), hinted_chunk Missing, hinted_chunk (Present 1)]
       \<noteq> Inr [hinted_chunk (Present 2), hinted_chunk Missing, hinted_chunk (Present 1)]"
  by (simp add: sort_chunks_def truthy_num_def hinted_chunk_eval created_at_key_def hinted_chunk_inj
      null_created_at_def)

section \<open>Properties of the thinking-block merger\<close>

lemma thinking_blocks_loop_append:
  "thinking_blocks_loop st (xs @ ys) = thinking_blocks_loop (thinking_blocks_loop st xs) ys"
  by (induction xs arbitrary: st) simp_all

lemma thinking_choices_flat:
  "thinking_choices st chs = thinking_blocks_loop st (concat (map choice_thinking_blocks chs))"
  by (induction chs arbitrary: st)
     (simp_all add: choice_thinking_blocks_def thinking_blocks_loop_append split: option.splits)

lemma thinking_chunks_flat:
  "thinking_chunks st cs = thinking_blocks_loop st (all_thinking_blocks cs)"
  by (induction cs arbitrary: st)
     (simp_all add: all_thinking_blocks_def thinking_choices_flat thinking_blocks_loop_append)

lemma truthy_val_nonempty: "truthy_val v = Some t \<Longrightarrow> t \<noteq> []"
  by (auto simp: truthy_val_def split: option.splits if_splits)

lemma thinking_fragment_step:
  "combined_thinking_text (thinking_block_step st b) =
     (if thinking_fragment b = [] then combined_thinking_text st
      else Some ((case combined_thinking_text st of None \<Rightarrow> [] | Some t \<Rightarrow> t) @ thinking_fragment b))"
  by (auto simp: thinking_block_step_def thinking_fragment_def is_redacted_def
      dest: truthy_val_nonempty split: option.splits)

lemma combined_thinking_text_loop:
  "combined_thinking_text (thinking_blocks_loop st bs) =
     (if thinking_text bs = [] then combined_thinking_text st
      else Some ((case combined_thinking_text st of None \<Rightarrow> [] | Some t \<Rightarrow> t) @ thinking_text bs))"
proof (induction bs arbitrary: st)
  case Nil
  show ?case by (simp add: thinking_text_def)
next
  case (Cons b bs)
  have t: "thinking_text (b # bs) = thinking_fragment b @ thinking_text bs"
    by (simp add: thinking_text_def)
  show ?case
    by (simp add: Cons.IH thinking_fragment_step t)
qed

lemma truthy_combined_init:
  "truthy_val (combined_thinking_text (thinking_blocks_loop thinking_init bs)) =
     (if thinking_text bs = [] then None else Some (thinking_text bs))"
  by (simp add: combined_thinking_text_loop thinking_init_def truthy_val_def)

lemma thinking_last_step:
  "ts_type (thinking_block_step st b) = (if is_redacted b then Redacted_Thinking else Thinking)"
  "is_redacted b \<Longrightarrow> ts_data (thinking_block_step st b) = tb_data b"
  "\<not> is_redacted b \<Longrightarrow> ts_signature (thinking_block_step st b) = tb_signature b"
  by (simp_all add: thinking_block_step_def is_redacted_def)

lemma all_thinking_blocks_example:
  "all_thinking_blocks [thinking_chunk bs, thinking_chunk bs'] = bs @ bs'"
  by (simp add: all_thinking_blocks_def choice_thinking_blocks_def get_delta_def thinking_chunk_def
      empty_delta_def)

text \<open>
  Claim C5, as amended. The merger emits at most one block, decided by the last entry of
  \<^verbatim>\<open>thinking_blocks\<close> scanned. When that entry is of the thinking variant and carries a
  non-empty signature, and the accumulated thinking text is non-empty, it emits one
  thinking block with the in-order concatenation of the thinking fragments and the
  signature of that last entry. When that entry is of the redacted variant with non-empty
  data, it emits one redacted block with that data. It returns absent in every other case,
  and when no entry was scanned.
\<close>

theorem get_combined_thinking_content_by_last:
  "get_combined_thinking_content chunks = thinking_by_last (all_thinking_blocks chunks)"
proof -
  define bs where "bs = all_thinking_blocks chunks"
  have "thinking_emit (thinking_blocks_loop thinking_init bs) = thinking_by_last bs"
  proof (cases bs rule: rev_cases)
    case Nil
    then show ?thesis
      by (simp add: thinking_emit_def thinking_by_last_def thinking_init_def truthy_val_def)
  next
    case (snoc bs' b)
    define st where "st = thinking_blocks_loop thinking_init bs'"
    have loop: "thinking_blocks_loop thinking_init bs = thinking_block_step st b"
      by (simp add: snoc st_def thinking_blocks_loop_append)
    have ctext: "truthy_val (combined_thinking_text (thinking_block_step st b)) =
        (if thinking_text bs = [] then None else Some (thinking_text bs))"
      using truthy_combined_init [of bs] by (simp add: loop)
    have l: "last bs = b" "bs \<noteq> []"
      by (simp_all add: snoc)
    show ?thesis
    proof (cases "is_redacted b")
      case True
      then show ?thesis
        unfolding loop thinking_emit_def thinking_by_last_def
        by (simp add: l thinking_last_step ctext split: option.splits)
    next
      case False
      then show ?thesis
        unfolding loop thinking_emit_def thinking_by_last_def
        by (simp add: l thinking_last_step ctext split: option.splits)
    qed
  qed
  then show ?thesis
    by (simp add: get_combined_thinking_content_def thinking_chunks_flat bs_def)
qed

text \<open>
  Two streams: thinking fragments closed by an entry that carries the signature, and a
  signed thinking entry followed by a redacted entry.
\<close>

theorem get_combined_thinking_content_by_last_witness:
  "get_combined_thinking_content
     [thinking_chunk [thinking_entry ''Let me '' None], thinking_chunk [thinking_entry ''think.'' None,
        thinking_entry [] (Some ''sig1'')]]
     = Some [Thinking_Block ''Let me think.'' ''sig1'']
   \<and> get_combined_thinking_content
       [thinking_chunk [thinking_entry ''abc'' (Some ''sig1'')], thinking_chunk [redacted_entry ''XYZ'']]
     = Some [Redacted_Thinking_Block ''XYZ'']"
  using get_combined_thinking_content_by_last
      [of "[thinking_chunk [thinking_entry ''Let me '' None], thinking_chunk [thinking_entry ''think.'' None,
        thinking_entry [] (Some ''sig1'')]]"]
    get_combined_thinking_content_by_last
      [of "[thinking_chunk [thinking_entry ''abc'' (Some ''sig1'')], thinking_chunk [redacted_entry ''XYZ'']]"]
  by (simp add: all_thinking_blocks_example thinking_by_last_def is_redacted_def thinking_entry_def
      redacted_entry_def thinking_text_def thinking_fragment_def truthy_val_def)

text \<open>
  The claim as stated fails: a signed thinking entry followed by a thinking entry without
  signature has accumulated text and a last non-null signature, and the merger returns
  absent, the signature having been overwritten by the null of the last entry.
\<close>

theorem thinking_signature_counterexample:
  "get_combined_thinking_content
     [thinking_chunk [thinking_entry ''a'' (Some ''sig1'')], thinking_chunk [thinking_entry ''b'' None]]
     = None
   \<and> thinking_as_stated
       (all_thinking_blocks
          [thinking_chunk [thinking_entry ''a'' (Some ''sig1'')], thinking_chunk [thinking_entry ''b'' None]])
     = Some [Thinking_Block ''ab'' ''sig1'']"
  by (simp add: get_combined_thinking_content_def thinking_emit_def thinking_block_step_def
      thinking_init_def get_delta_def thinking_chunk_def empty_delta_def
      all_thinking_blocks_def choice_thinking_blocks_def thinking_as_stated_def last_truthy_def
      is_redacted_def thinking_entry_def thinking_text_def thinking_fragment_def truthy_val_def
      plain_chunk_def)

section \<open>Properties of the usage scan\<close>

lemma usage_loop_snoc: "usage_loop acc (cs @ [c]) = usage_step (usage_loop acc cs) c"
  by (induction cs arbitrary: acc) simp_all

lemma calculate_usage_per_chunk_snoc:
  "calculate_usage_per_chunk (chunks @ [c]) = usage_step (calculate_usage_per_chunk chunks) c"
  by (simp add: calculate_usage_per_chunk_def usage_loop_snoc)

lemma get_usage_chunk_of: "get_usage_chunk (usage_chunk_of u) = Some u"
  by (simp add: get_usage_chunk_def usage_chunk_of_def)

lemma get_usage_plain_chunk: "get_usage_chunk plain_chunk = None"
  by (simp add: get_usage_chunk_def plain_chunk_def)

text \<open>
  Claim C2, as amended. Scanning one more chunk changes nothing when the chunk has no
  usage record. When it has one, the running \<open>prompt_tokens\<close> and \<open>completion_tokens\<close> are
  replaced only by a value that is present and strictly positive; the two cache counters
  are replaced by a present value that is strictly positive or that meets a running value
  still unset, and are left as they are otherwise; and a record that carries
  \<open>prompt_tokens_details\<close> replaces the running \<open>prompt_tokens_details\<close>, whether or not it
  was set.
\<close>

theorem calculate_usage_per_chunk_override:
  "(get_usage_chunk c = None \<longrightarrow>
      calculate_usage_per_chunk (chunks @ [c]) = calculate_usage_per_chunk chunks)
   \<and> (get_usage_chunk c = Some u \<longrightarrow>
        upc_prompt_tokens (calculate_usage_per_chunk (chunks @ [c]))
          = override_on_positive (upc_prompt_tokens (calculate_usage_per_chunk chunks))
              (prompt_tokens u)
      \<and> upc_completion_tokens (calculate_usage_per_chunk (chunks @ [c]))
          = override_on_positive (upc_completion_tokens (calculate_usage_per_chunk chunks))
              (completion_tokens u)
      \<and> upc_cache_creation_input_tokens (calculate_usage_per_chunk (chunks @ [c]))
          = override_on_positive_or_unset
              (upc_cache_creation_input_tokens (calculate_usage_per_chunk chunks))
              (cache_creation_input_tokens u)
      \<and> upc_cache_read_input_tokens (calculate_usage_per_chunk (chunks @ [c]))
          = override_on_positive_or_unset
              (upc_cache_read_input_tokens (calculate_usage_per_chunk chunks))
              (cache_read_input_tokens u)
      \<and> (usage_prompt_tokens_details u = Some d \<longrightarrow>
           upc_prompt_tokens_details (calculate_usage_per_chunk (chunks @ [c])) = Some d))"
proof (intro conjI impI)
  assume "get_usage_chunk c = None"
  then show "calculate_usage_per_chunk (chunks @ [c]) = calculate_usage_per_chunk chunks"
    by (simp add: calculate_usage_per_chunk_snoc usage_step_def)
next
  assume u: "get_usage_chunk c = Some u"
  show "upc_prompt_tokens (calculate_usage_per_chunk (chunks @ [c]))
          = override_on_positive (upc_prompt_tokens (calculate_usage_per_chunk chunks))
              (prompt_tokens u)"
    by (simp add: calculate_usage_per_chunk_snoc usage_step_def u usage_update_def
        usage_chunk_calculation_helper_def override_on_positive_def split: option.splits)
next
  assume u: "get_usage_chunk c = Some u"
  show "upc_completion_tokens (calculate_usage_per_chunk (chunks @ [c]))
          = override_on_positive (upc_completion_tokens (calculate_usage_per_chunk chunks))
              (completion_tokens u)"
    by (simp add: calculate_usage_per_chunk_snoc usage_step_def u usage_update_def
        usage_chunk_calculation_helper_def override_on_positive_def split: option.splits)
next
  assume u: "get_usage_chunk c = Some u"
  show "upc_cache_creation_input_tokens (calculate_usage_per_chunk (chunks @ [c]))
          = override_on_positive_or_unset
              (upc_cache_creation_input_tokens (calculate_usage_per_chunk chunks))
              (cache_creation_input_tokens u)"
    by (simp add: calculate_usage_per_chunk_snoc usage_step_def u usage_update_def
        usage_chunk_calculation_helper_def override_on_positive_or_unset_def split: option.splits)
next
  assume u: "get_usage_chunk c = Some u"
  show "upc_cache_read_input_tokens (calculate_usage_per_chunk (chunks @ [c]))
          = override_on_positive_or_unset
              (upc_cache_read_input_tokens (calculate_usage_per_chunk chunks))
              (cache_read_input_tokens u)"
    by (simp add: calculate_usage_per_chunk_snoc usage_step_def u usage_update_def
        usage_chunk_calculation_helper_def override_on_positive_or_unset_def split: option.splits)
next
  assume u: "get_usage_chunk c = Some u" and d: "usage_prompt_tokens_details u = Some d"
  show "upc_prompt_tokens_details (calculate_usage_per_chunk (chunks @ [c])) = Some d"
    by (simp add: calculate_usage_per_chunk_snoc usage_step_def u d usage_update_def
        usage_chunk_calculation_helper_def)
qed

text \<open>
  The scenario of the specification: a usage with \<open>prompt_tokens = 0\<close> followed by one with
  \<open>prompt_tokens = 42\<close> yields 42; a chunk without usage leaves the running values alone;
  and prompt details with 9 cached tokens replace running details with 5.
\<close>

theorem calculate_usage_per_chunk_override_witness:
  "upc_prompt_tokens (calculate_usage_per_chunk
      ([usage_chunk_of (no_usage\<lparr>prompt_tokens := Some 0, completion_tokens := Some 7\<rparr>)]
       @ [usage_chunk_of (no_usage\<lparr>prompt_tokens := Some 42, completion_tokens := Some 0\<rparr>)])) = 42
   \<and> upc_completion_tokens (calculate_usage_per_chunk
      ([usage_chunk_of (no_usage\<lparr>prompt_tokens := Some 0, completion_tokens := Some 7\<rparr>)]
       @ [usage_chunk_of (no_usage\<lparr>prompt_tokens := Some 42, completion_tokens := Some 0\<rparr>)])) = 7
   \<and> calculate_usage_per_chunk
      ([usage_chunk_of (no_usage\<lparr>prompt_tokens := Some 0, completion_tokens := Some 7\<rparr>)]
       @ [plain_chunk])
     = calculate_usage_per_chunk
        [usage_chunk_of (no_usage\<lparr>prompt_tokens := Some 0, completion_tokens := Some 7\<rparr>)]
   \<and> upc_prompt_tokens_details (calculate_usage_per_chunk
      ([details_chunk (Some \<lparr>cached_tokens = Some 5, web_search_requests = None\<rparr>)]
       @ [details_chunk (Some \<lparr>cached_tokens = Some 9, web_search_requests = None\<rparr>)]))
     = Some \<lparr>cached_tokens = Some 9, web_search_requests = None\<rparr>"
  using calculate_usage_per_chunk_override
      [of "usage_chunk_of (no_usage\<lparr>prompt_tokens := Some 42, completion_tokens := Some 0\<rparr>)"
          "[usage_chunk_of (no_usage\<lparr>prompt_tokens := Some 0, completion_tokens := Some 7\<rparr>)]"
          "no_usage\<lparr>prompt_tokens := Some 42, completion_tokens := Some 0\<rparr>"]
    calculate_usage_per_chunk_override
      [of plain_chunk
          "[usage_chunk_of (no_usage\<lparr>prompt_tokens := Some 0, completion_tokens := Some 7\<rparr>)]"
          no_usage]
    calculate_usage_per_chunk_override
      [of "details_chunk (Some \<lparr>cached_tokens = Some 9, web_search_requests = None\<rparr>)"
          "[details_chunk (Some \<lparr>cached_tokens = Some 5, web_search_requests = None\<rparr>)]"
          "no_usage\<lparr>prompt_tokens := Some 10,
             usage_prompt_tokens_details := Some \<lparr>cached_tokens = Some 9, web_search_requests = None\<rparr>\<rparr>"
          "\<lparr>cached_tokens = Some 9, web_search_requests = None\<rparr>"]
  by (simp add: get_usage_chunk_of get_usage_plain_chunk override_on_positive_def per_chunk_single
      details_chunk_def)

text \<open>
  The claim as stated fails for \<open>prompt_tokens_details\<close>: a running value that is set is
  not left unchanged. A later record with details replaces it, and a later usage record
  without details resets it to null.
\<close>

theorem prompt_tokens_details_override_counterexample:
  "upc_prompt_tokens_details (calculate_usage_per_chunk
       [details_chunk (Some \<lparr>cached_tokens = Some 5, web_search_requests = None\<rparr>)])
     = Some \<lparr>cached_tokens = Some 5, web_search_requests = None\<rparr>
   \<and> upc_prompt_tokens_details (calculate_usage_per_chunk
       [details_chunk (Some \<lparr>cached_tokens = Some 5, web_search_requests = None\<rparr>),
        details_chunk None]) = None
   \<and> override_when_unset (Some \<lparr>cached_tokens = Some 5, web_search_requests = None\<rparr>) None
     = Some \<lparr>cached_tokens = Some 5, web_search_requests = None\<rparr>
   \<and> upc_prompt_tokens_details (calculate_usage_per_chunk
       [details_chunk (Some \<lparr>cached_tokens = Some 5, web_search_requests = None\<rparr>),
        details_chunk (Some \<lparr>cached_tokens = Some 9, web_search_requests = None\<rparr>)])
     = Some \<lparr>cached_tokens = Some 9, web_search_requests = None\<rparr>
   \<and> override_when_unset (Some \<lparr>cached_tokens = Some 5, web_search_requests = None\<rparr>)
       (Some \<lparr>cached_tokens = Some 9, web_search_requests = None\<rparr>)
     = Some \<lparr>cached_tokens = Some 5, web_search_requests = None\<rparr>"
  by (simp add: calculate_usage_per_chunk_def usage_step_def usage_update_def
      usage_chunk_calculation_helper_def get_usage_chunk_def details_chunk_def usage_chunk_of_def
      plain_chunk_def no_usage_def usage_init_def override_when_unset_def)

section \<open>Properties of the tool-call merger\<close>

lemma tool_calls_loop_append:
  "tool_calls_loop m (xs @ ys) = tool_calls_loop (tool_calls_loop m xs) ys"
  by (induction xs arbitrary: m) simp_all

lemma get_tool_calls_choice:
  "get_tool_calls (get_delta ch)
     = (if null_choice ch then Inl TypeError else Inr (choice_tool_calls ch))"
  by (simp add: get_tool_calls_def null_choice_def choice_tool_calls_def split: pyfield.splits)

lemma tool_calls_choices_flat:
  "tool_calls_choices m chs
     = (if list_ex null_choice chs then Inl TypeError
        else Inr (tool_calls_loop m (concat (map choice_tool_calls chs))))"
  by (induction chs arbitrary: m)
     (simp_all add: get_tool_calls_choice tool_calls_loop_append)

lemma tool_calls_chunks_flat:
  "tool_calls_chunks m cs
     = (if null_tool_calls cs then Inl TypeError
        else Inr (tool_calls_loop m (all_tool_call_entries cs)))"
  by (induction cs arbitrary: m)
     (simp_all add: null_tool_calls_def all_tool_call_entries_def tool_calls_choices_flat
       tool_calls_loop_append)

lemma tool_call_step_skipped: "skipped e \<Longrightarrow> tool_call_step m e = m"
  by (simp add: skipped_def tool_call_step_def split: option.splits)

lemma tool_calls_loop_filter:
  "tool_calls_loop m (filter (\<lambda>e. \<not> skipped e) es) = tool_calls_loop m es"
  by (induction es arbitrary: m) (simp_all add: tool_call_step_skipped)

lemma tool_calls_without_skipped:
  "tool_calls (get_delta (without_skipped_choice ch))
     = (case tool_calls (get_delta ch) of
          Present es \<Rightarrow> Present (filter (\<lambda>e. \<not> skipped e) es)
        | v \<Rightarrow> v)"
  by (simp add: without_skipped_choice_def without_skipped_delta_def get_delta_def empty_delta_def
      split: option.splits)

lemma choice_tool_calls_without_skipped:
  "choice_tool_calls (without_skipped_choice ch) = filter (\<lambda>e. \<not> skipped e) (choice_tool_calls ch)"
  by (simp add: choice_tool_calls_def tool_calls_without_skipped split: pyfield.splits)

lemma null_choice_without_skipped: "null_choice (without_skipped_choice ch) = null_choice ch"
  by (simp add: null_choice_def tool_calls_without_skipped split: pyfield.splits)

lemma null_tool_calls_without_skipped:
  "null_tool_calls (map without_skipped cs) = null_tool_calls cs"
  by (simp add: null_tool_calls_def without_skipped_def list_ex_iff null_choice_without_skipped)

lemma all_tool_call_entries_without_skipped:
  "all_tool_call_entries (map without_skipped cs)
     = filter (\<lambda>e. \<not> skipped e) (all_tool_call_entries cs)"
  by (induction cs)
     (simp_all add: all_tool_call_entries_def without_skipped_def filter_concat comp_def
       choice_tool_calls_without_skipped)

text \<open>
  Claim C10. An entry of \<^verbatim>\<open>tool_calls\<close> that is falsy or has no attribute \<^verbatim>\<open>function\<close> is
  ignored by the merger: scanning it leaves the map of accumulators as it is, so it opens
  no accumulator; and the accumulators and the emitted tool calls of a chunk sequence are
  those of the sequence with all such entries removed, so neither its index nor its id or
  type contributes anything.
\<close>

theorem skipped_entries_ignored:
  "(skipped e \<longrightarrow> tool_call_step m e = m)
   \<and> tool_calls_chunks [] (map without_skipped chunks) = tool_calls_chunks [] chunks
   \<and> get_combined_tool_content (map without_skipped chunks) = get_combined_tool_content chunks"
proof -
  have "tool_calls_chunks [] (map without_skipped chunks) = tool_calls_chunks [] chunks"
    by (simp add: tool_calls_chunks_flat all_tool_call_entries_without_skipped
        tool_calls_loop_filter null_tool_calls_without_skipped)
  then show ?thesis
    by (simp add: get_combined_tool_content_def tool_call_step_skipped)
qed

lemmas tool_eval_defs =
  tool_call_step_def update_data_def emit_tool_call_def
  get_index_def get_tool_calls_def get_delta_def new_tool_call_data_def truthy_val_def
  tool_chunk_def function_entry_def bare_entry_def plain_chunk_def empty_delta_def

text \<open>
  A null entry and an entry without \<^verbatim>\<open>function\<close> that carries index 3, an id and a type,
  next to a well-formed entry of index 0: only index 0 has an accumulator.
\<close>

theorem skipped_entries_ignored_witness:
  "tool_call_step [] (bare_entry (Present 3) (Some ''call_9'')) = []
   \<and> tool_calls_chunks []
        [tool_chunk [None, bare_entry (Present 3) (Some ''call_9''),
           function_entry (Present 0) (Some ''call_1'') None (Some ''get_weather'') None]]
     = Inr [(Some 0, \<lparr>data_id = Some ''call_1'', data_name = Some ''get_weather'', data_type = None,
              data_arguments = []\<rparr>)]
   \<and> get_combined_tool_content
        [tool_chunk [None, bare_entry (Present 3) (Some ''call_9''),
           function_entry (Present 0) (Some ''call_1'') None (Some ''get_weather'') None]]
     = Inr [\<lparr>call_id = ''call_1'', call_type = ''function'', call_name = ''get_weather'',
         call_arguments = ''{}''\<rparr>]"
proof -
  have s: "skipped (bare_entry (Present 3) (Some ''call_9''))"
    by (simp add: skipped_def bare_entry_def)
  have w: "map without_skipped
        [tool_chunk [None, bare_entry (Present 3) (Some ''call_9''),
           function_entry (Present 0) (Some ''call_1'') None (Some ''get_weather'') None]]
      = [tool_chunk [function_entry (Present 0) (Some ''call_1'') None (Some ''get_weather'') None]]"
    by (simp add: without_skipped_def without_skipped_choice_def without_skipped_delta_def
        tool_chunk_def skipped_def bare_entry_def function_entry_def)
  have e: "tool_calls_chunks []
        [tool_chunk [function_entry (Present 0) (Some ''call_1'') None (Some ''get_weather'') None]]
      = Inr [(Some 0, \<lparr>data_id = Some ''call_1'', data_name = Some ''get_weather'', data_type = None,
              data_arguments = []\<rparr>)]"
    by (simp add: tool_eval_defs)
  have g: "get_combined_tool_content
        [tool_chunk [function_entry (Present 0) (Some ''call_1'') None (Some ''get_weather'') None]]
     = Inr [\<lparr>call_id = ''call_1'', call_type = ''function'', call_name = ''get_weather'',
         call_arguments = ''{}''\<rparr>]"
    unfolding get_combined_tool_content_def e
    by (simp add: sorted_keys_def emit_tool_call_def truthy_val_def)
  note t = skipped_entries_ignored
      [of "bare_entry (Present 3) (Some ''call_9'')" "[]"
          "[tool_chunk [None, bare_entry (Present 3) (Some ''call_9''),
             function_entry (Present 0) (Some ''call_1'') None (Some ''get_weather'') None]]",
       unfolded w e g]
  from t s have a: "tool_call_step [] (bare_entry (Present 3) (Some ''call_9'')) = []"
    by blast
  from t have b: "Inr [(Some 0, \<lparr>data_id = Some ''call_1'', data_name = Some ''get_weather'',
              data_type = None, data_arguments = []\<rparr>)] = tool_calls_chunks []
        [tool_chunk [None, bare_entry (Present 3) (Some ''call_9''),
           function_entry (Present 0) (Some ''call_1'') None (Some ''get_weather'') None]]"
    by blast
  from t have c: "Inr [\<lparr>call_id = ''call_1'', call_type = ''function'', call_name = ''get_weather'',
         call_arguments = ''{}''\<rparr>] = get_combined_tool_content
        [tool_chunk [None, bare_entry (Present 3) (Some ''call_9''),
           function_entry (Present 0) (Some ''call_1'') None (Some ''get_weather'') None]]"
    by blast
  show ?thesis
    unfolding b [symmetric] c [symmetric] using a by simp
qed
































text \<open>A null \<^verbatim>\<open>tool_calls\<close> anywhere in the sequence makes the merger raise.\<close>

lemma get_combined_tool_content_null:
  "null_tool_calls chunks \<Longrightarrow> get_combined_tool_content chunks = Inl TypeError"
  by (simp add: get_combined_tool_content_def tool_calls_chunks_flat)

text \<open>
  An entry with a null index opens an accumulator under the key \<^verbatim>\<open>None\<close>; next to an
  integer key, \<^verbatim>\<open>sorted\<close> cannot compare the two and the merger raises.
\<close>

lemma get_combined_tool_content_null_index:
  "get_combined_tool_content
     [tool_chunk [function_entry PyNone (Some ''call_a'') None (Some ''f'') None,
        function_entry (Present 0) (Some ''call_b'') None (Some ''g'') None]]
   = Inl TypeError"
  by (simp add: get_combined_tool_content_def sorted_keys_def tool_eval_defs)




section \<open>Properties of the base64 concatenation\<close>

lemma index_of_nth:
  "distinct xs \<Longrightarrow> n < length xs \<Longrightarrow> index_of (xs ! n) xs = Some n"
proof (induction xs arbitrary: n)
  case Nil
  then show ?case by simp
next
  case (Cons x xs)
  show ?case
  proof (cases n)
    case 0
    then show ?thesis by simp
  next
    case (Suc k)
    then have "xs ! k \<in> set xs" using Cons.prems by simp
    then have "x \<noteq> xs ! k" using Cons.prems by auto
    then show ?thesis using Suc Cons by simp
  qed
qed

lemma b64_alphabet_length: "length b64_alphabet = 64"
  by (simp add: b64_alphabet_def)

lemma b64_alphabet_distinct: "distinct b64_alphabet"
  by (simp add: b64_alphabet_def)

lemma b64_alphabet_no_pad: "CHR ''='' \<notin> set b64_alphabet"
  by (simp add: b64_alphabet_def)

lemma b64_value_char: "b64_value (b64_char n) = Some (n mod 64)"
  by (simp add: b64_value_def b64_char_def index_of_nth b64_alphabet_distinct b64_alphabet_length)

lemma b64_char_no_pad: "b64_char n \<noteq> CHR ''=''"
proof -
  have "b64_char n \<in> set b64_alphabet"
    by (simp add: b64_char_def b64_alphabet_length)
  then show ?thesis using b64_alphabet_no_pad by auto
qed

lemma byte_bound: "unat (a :: byte) < 256"
  using unsigned_less [of a] by simp

lemma byte_of_unat: "of_nat (unat (a :: byte)) = a"
  by simp


lemma radix2: "(n::nat) div 64 mod 64 * 64 + n mod 64 = n mod 4096"
  using mod_mult2_eq [of n 64 64] by simp

lemma radix3: "(n::nat) div 4096 mod 64 * 4096 + n mod 4096 = n mod 262144"
  using mod_mult2_eq [of n 4096 64] by simp

lemma recompose4:
  fixes n :: nat
  assumes "n < 16777216"
  shows "n div 262144 mod 64 * 262144 + n div 4096 mod 64 * 4096 + n div 64 mod 64 * 64 + n mod 64 = n"
proof -
  have "n div 262144 < 64"
    using assms by (simp add: div_less_iff_less_mult)
  then have a: "n div 262144 mod 64 = n div 262144"
    by simp
  have "n div 262144 * 262144 + n mod 262144 = n"
    by simp
  then show ?thesis
    unfolding a radix3 [symmetric] radix2 [symmetric] by (simp only: add.assoc)
qed

lemma recompose3:
  fixes n :: nat
  assumes "n < 262144"
  shows "n div 4096 mod 64 * 4096 + n div 64 mod 64 * 64 + n mod 64 = n"
proof -
  have "n mod 262144 = n"
    using assms by simp
  then show ?thesis
    unfolding radix3 [symmetric] radix2 [symmetric] by (simp only: add.assoc)
qed

lemma recompose2:
  fixes n :: nat
  assumes "n < 4096"
  shows "n div 64 mod 64 * 64 + n mod 64 = n"
proof -
  have "n mod 4096 = n"
    using assms by simp
  then show ?thesis
    unfolding radix2 [symmetric] .
qed

lemma bytes3:
  fixes x y z :: nat
  assumes "x < 256" "y < 256" "z < 256"
  shows "(x * 65536 + y * 256 + z) div 65536 = x"
    and "(x * 65536 + y * 256 + z) div 256 mod 256 = y"
    and "(x * 65536 + y * 256 + z) mod 256 = z"
    and "x * 65536 + y * 256 + z < 16777216"
proof -
  have e: "x * 65536 + y * 256 + z = (x * 256 + y) * 256 + z"
    by simp
  show "(x * 65536 + y * 256 + z) div 65536 = x"
    using assms by simp
  have "((x * 256 + y) * 256 + z) mod 256 = z mod 256"
    by (rule mod_mult_self3)
  then show "(x * 65536 + y * 256 + z) mod 256 = z"
    unfolding e using assms by simp
  have "((x * 256 + y) * 256 + z) div 256 = x * 256 + y + z div 256"
    by (rule div_mult_self3) simp
  then have "(x * 65536 + y * 256 + z) div 256 = x * 256 + y"
    unfolding e using assms by simp
  then show "(x * 65536 + y * 256 + z) div 256 mod 256 = y"
    using assms by simp
  show "x * 65536 + y * 256 + z < 16777216"
    using assms by simp
qed

lemma bytes2:
  fixes x y :: nat
  assumes "x < 256" "y < 256"
  shows "((x * 256 + y) * 4) div 1024 = x"
    and "((x * 256 + y) * 4) div 4 mod 256 = y"
    and "(x * 256 + y) * 4 < 262144"
  using assms by simp_all

lemma bytes1:
  fixes x :: nat
  assumes "x < 256"
  shows "(x * 16) div 16 = x" and "x * 16 < 4096"
  using assms by simp_all

lemma decode_group_three:
  fixes a b c :: byte
  defines "n \<equiv> unat a * 65536 + unat b * 256 + unat c"
  shows "decode_group final (b64_char (n div 262144)) (b64_char (n div 4096 mod 64))
           (b64_char (n div 64 mod 64)) (b64_char (n mod 64)) = Some [a, b, c]"
proof -
  note bd = byte_bound [of a] byte_bound [of b] byte_bound [of c]
  have n: "n < 16777216"
    unfolding n_def by (rule bytes3(4) [OF bd])
  have r: "n div 262144 mod 64 * 262144 + n div 4096 mod 64 * 4096 + n div 64 mod 64 * 64
      + n mod 64 = n"
    by (rule recompose4 [OF n])
  have b: "n div 65536 = unat a" "n div 256 mod 256 = unat b" "n mod 256 = unat c"
    unfolding n_def by (rule bytes3 [OF bd])+
  show ?thesis
    unfolding decode_group_def b64_value_char
    by (simp add: b64_char_no_pad Let_def r b)
qed

lemma decode_group_two:
  fixes a b :: byte
  defines "n \<equiv> (unat a * 256 + unat b) * 4"
  shows "decode_group True (b64_char (n div 4096)) (b64_char (n div 64 mod 64))
           (b64_char (n mod 64)) CHR ''='' = Some [a, b]"
proof -
  note bd = byte_bound [of a] byte_bound [of b]
  have n: "n < 262144"
    unfolding n_def by (rule bytes2(3) [OF bd])
  have r: "n div 4096 mod 64 * 4096 + n div 64 mod 64 * 64 + n mod 64 = n"
    by (rule recompose3 [OF n])
  have b: "n div 1024 = unat a" "n div 4 mod 256 = unat b"
    unfolding n_def by (rule bytes2 [OF bd])+
  show ?thesis
    unfolding decode_group_def b64_value_char
    by (simp add: b64_char_no_pad Let_def r b)
qed

lemma decode_group_one:
  fixes a :: byte
  defines "n \<equiv> unat a * 16"
  shows "decode_group True (b64_char (n div 64)) (b64_char (n mod 64)) CHR ''='' CHR ''=''
           = Some [a]"
proof -
  note bd = byte_bound [of a]
  have n: "n < 4096"
    unfolding n_def by (rule bytes1(2) [OF bd])
  have r: "n div 64 mod 64 * 64 + n mod 64 = n"
    by (rule recompose2 [OF n])
  have b: "n div 16 = unat a"
    unfolding n_def by (rule bytes1(1) [OF bd])
  show ?thesis
    unfolding decode_group_def b64_value_char
    by (simp add: Let_def r b)
qed


lemma b64decode_b64encode: "b64decode (b64encode bs) = Inr bs"
proof (induction bs rule: b64encode.induct)
  case 1
  show ?case by simp
next
  case (2 a)
  show ?case
    using decode_group_one [of a] by (simp add: Let_def)
next
  case (3 a b)
  show ?case
    using decode_group_two [of a b] by (simp add: Let_def)
next
  case (4 a b c rest)
  show ?case
    using decode_group_three [of "b64encode rest = []" a b c] "4.IH"
    by (simp add: Let_def)
qed

lemma decode_all_map:
  "map b64decode base64_strings = map Inr fragments \<Longrightarrow> decode_all base64_strings = Inr fragments"
proof (induction base64_strings arbitrary: fragments)
  case Nil
  then show ?case by simp
next
  case (Cons s ss)
  then obtain f fs where f: "fragments = f # fs" "b64decode s = Inr f"
    "map b64decode ss = map Inr fs"
    by (cases fragments) auto
  then show ?case
    using Cons.IH [of fs] by simp
qed

text \<open>
  Claim C8. For every list of base64 strings that decode, to the byte strings
  \<open>fragments\<close>, \<^verbatim>\<open>concatenate_base64_list\<close> returns a string, and decoding it gives the
  concatenation of the decoded fragments, whatever their lengths. On the empty list it
  returns the empty string and raises nothing.
\<close>

theorem concatenate_base64_list_decodes:
  "(map b64decode base64_strings = map Inr fragments \<longrightarrow>
      (\<exists>s. concatenate_base64_list base64_strings = Inr s
           \<and> b64decode s = Inr (concat fragments)))
   \<and> concatenate_base64_list [] = Inr []"
  by (simp add: concatenate_base64_list_def decode_all_map b64decode_b64encode)


text \<open>
  Two padded fragments, of one and of two bytes: neither length is a multiple of three.
  Joining the base64 texts would give \<^verbatim>\<open>TQ==YW4=\<close>; the function returns \<^verbatim>\<open>TWFu\<close>.
\<close>

theorem concatenate_base64_list_decodes_witness:
  "concatenate_base64_list [''TQ=='', ''YW4=''] = Inr ''TWFu''
   \<and> b64decode ''TWFu'' = Inr [77, 97, 110]
   \<and> concatenate_base64_list [] = Inr []"
proof -
  have h: "map b64decode [''TQ=='', ''YW4=''] = map Inr [[77], [97, 110]]"
    by (simp add: decode_group_def b64_value_def b64_alphabet_def)
  have c: "concatenate_base64_list [''TQ=='', ''YW4=''] = Inr ''TWFu''"
    by (simp add: concatenate_base64_list_def decode_group_def b64_value_def b64_char_def
        b64_alphabet_def)
  from concatenate_base64_list_decodes [of "[''TQ=='', ''YW4='']" "[[77], [97, 110]]"] h c
  show ?thesis by simp
qed

end
